theory Spec2Isabelle
  imports Complex_Main

begin


section \<open>Numbers and optional arguments\<close>

text \<open>
  The source is TypeScript (\<^verbatim>\<open>src/lib/map.ts\<close>). A JavaScript number is modelled by
  a real. Where rounding matters a function is defined twice: with exact arithmetic,
  and (\<open>calculateRegion_double\<close>, \<open>calculateDistance_double\<close>) with every operation
  rounded to IEEE 754 binary64; the infinities are outside both.

  An argument of type \<^verbatim>\<open>number | null\<close> (or an optional one) is a \<open>real option\<close>,
  \<open>None\<close> standing for \<^verbatim>\<open>null\<close> and \<^verbatim>\<open>undefined\<close> (and for \<^verbatim>\<open>NaN\<close>, which the tests
  below treat alike).

  The source tests such an argument with \<^verbatim>\<open>!x\<close>: JavaScript truthiness, under which
  \<^verbatim>\<open>null\<close>, \<^verbatim>\<open>undefined\<close> and the number 0 are all falsy.
\<close>

definition truthy :: "real option \<Rightarrow> bool" where
  "truthy v = (case v of None \<Rightarrow> False | Some x \<Rightarrow> x \<noteq> 0)"

text \<open>
  The number held by an argument. The source reads it only after the truthiness test,
  so the value at \<open>None\<close> is never used; it is what JavaScript's arithmetic makes of
  \<^verbatim>\<open>null\<close>.
\<close>

definition num :: "real option \<Rightarrow> real" where
  "num v = (case v of None \<Rightarrow> 0 | Some x \<Rightarrow> x)"


section \<open>Rounding to binary64\<close>

text \<open>
  The exact arithmetic above leaves out the rounding of the IEEE 754 binary64 numbers
  that JavaScript computes with. This section models it, for the statements that
  depend on it: whether a point lies inside a computed box, and whether a computed
  distance is zero.

  \<open>double x\<close> is the binary64 number nearest to the real \<open>x\<close>, the one with the even
  significand of two equally near: a multiple of \<open>2\<^sup>e\<close>, where \<open>e\<close> is 52 below the binary
  exponent of \<open>x\<close> and at least -1074 (the subnormal numbers). Every arithmetic operation
  of the language returns the \<open>double\<close> of its exact result. Results beyond the largest
  binary64 number (about \<open>1.8 * 10\<^sup>3\<^sup>0\<^sup>8\<close>), where the language returns an infinity, are
  outside the model, and the two zeros are not told apart.
\<close>

definition round_even :: "real \<Rightarrow> int" where
  "round_even y =
     (let f = \<lfloor>y\<rfloor>
      in if y - of_int f < 1 / 2 then f
         else if 1 / 2 < y - of_int f then f + 1
         else if even f then f else f + 1)"

definition double :: "real \<Rightarrow> real" where
  "double x =
     (if x = 0 then 0
      else (let e = max (\<lfloor>log 2 \<bar>x\<bar>\<rfloor> - 52) (- 1074)
            in of_int (round_even (x / 2 powr of_int e)) * 2 powr of_int e))"

text \<open>
  Half of the least positive number of binary64, \<open>2\<^sup>-\<^sup>1\<^sup>0\<^sup>7\<^sup>4\<close>: the largest rounding error
  among the subnormal numbers.
\<close>

definition tiny :: real where
  "tiny = 1 / 2 ^ 1075"


section \<open>calculateRegion (map.ts, lines 27-73)\<close>

record region =
  latitude :: real
  longitude :: real
  latitudeDelta :: real
  longitudeDelta :: real

definition calculateRegion ::
  "real option \<Rightarrow> real option \<Rightarrow> real option \<Rightarrow> real option \<Rightarrow> region" where
  "calculateRegion userLatitude userLongitude destinationLatitude destinationLongitude =
     (if \<not> truthy userLatitude \<or> \<not> truthy userLongitude then
        \<lparr>latitude = 37.78825, longitude = -122.4324,
         latitudeDelta = 0.01, longitudeDelta = 0.01\<rparr>
      else if \<not> truthy destinationLatitude \<or> \<not> truthy destinationLongitude then
        \<lparr>latitude = num userLatitude, longitude = num userLongitude,
         latitudeDelta = 0.01, longitudeDelta = 0.01\<rparr>
      else
        (let minLat = min (num userLatitude) (num destinationLatitude);
             maxLat = max (num userLatitude) (num destinationLatitude);
             minLng = min (num userLongitude) (num destinationLongitude);
             maxLng = max (num userLongitude) (num destinationLongitude);
             latDelta = (maxLat - minLat) * 1.3;
             lngDelta = (maxLng - minLng) * 1.3;
             lat = (num userLatitude + num destinationLatitude) / 2;
             lng = (num userLongitude + num destinationLongitude) / 2
         in \<lparr>latitude = lat, longitude = lng,
             latitudeDelta = latDelta, longitudeDelta = lngDelta\<rparr>))"

text \<open>
  The third branch of \<open>calculateRegion\<close> (lines 56-72) operation for operation;
  \<^verbatim>\<open>Math.min\<close> and \<^verbatim>\<open>Math.max\<close> are exact, the literal \<^verbatim>\<open>1.3\<close> is the binary64
  number nearest to it. The other two branches return their arguments and constants.
\<close>

definition calculateRegion_double ::
  "real option \<Rightarrow> real option \<Rightarrow> real option \<Rightarrow> real option \<Rightarrow> region" where
  "calculateRegion_double userLatitude userLongitude destinationLatitude destinationLongitude =
     (if \<not> truthy userLatitude \<or> \<not> truthy userLongitude then
        \<lparr>latitude = double 37.78825, longitude = double (-122.4324),
         latitudeDelta = double 0.01, longitudeDelta = double 0.01\<rparr>
      else if \<not> truthy destinationLatitude \<or> \<not> truthy destinationLongitude then
        \<lparr>latitude = num userLatitude, longitude = num userLongitude,
         latitudeDelta = double 0.01, longitudeDelta = double 0.01\<rparr>
      else
        (let minLat = min (num userLatitude) (num destinationLatitude);
             maxLat = max (num userLatitude) (num destinationLatitude);
             minLng = min (num userLongitude) (num destinationLongitude);
             maxLng = max (num userLongitude) (num destinationLongitude);
             latDelta = double (double (maxLat - minLat) * double 1.3);
             lngDelta = double (double (maxLng - minLng) * double 1.3);
             lat = double (double (num userLatitude + num destinationLatitude) / 2);
             lng = double (double (num userLongitude + num destinationLongitude) / 2)
         in \<lparr>latitude = lat, longitude = lng,
             latitudeDelta = latDelta, longitudeDelta = lngDelta\<rparr>))"

text \<open>
  The bounding box of a region: the centre plus and minus half a delta on each axis.
  A point is strictly inside when it is strictly between the bounds on both axes.
\<close>

definition strictly_inside :: "region \<Rightarrow> real \<Rightarrow> real \<Rightarrow> bool" where
  "strictly_inside r lat lng =
     (latitude r - latitudeDelta r / 2 < lat \<and> lat < latitude r + latitudeDelta r / 2 \<and>
      longitude r - longitudeDelta r / 2 < lng \<and> lng < longitude r + longitudeDelta r / 2)"


section \<open>calculateDistance (map.ts, lines 209-228)\<close>

text \<open>
  \<^verbatim>\<open>Math.atan2(y, x)\<close> on the reals: the angle of the point \<open>(x, y)\<close>, between
  \<open>-\<pi>\<close> (excluded) and \<open>\<pi>\<close>.
\<close>

definition atan2 :: "real \<Rightarrow> real \<Rightarrow> real" where
  "atan2 y x =
     (if 0 < x then arctan (y / x)
      else if x < 0 then (if 0 \<le> y then arctan (y / x) + pi else arctan (y / x) - pi)
      else if 0 < y then pi / 2
      else if y < 0 then - (pi / 2)
      else 0)"

text \<open>
  The haversine formula, as the source writes it, over the reals. There the term \<open>a\<close>
  lies between 0 and 1 for all arguments (\<open>haversine_a_range\<close> below), so both square
  roots are taken of non-negative numbers, where \<^verbatim>\<open>Math.sqrt\<close> and the real square root
  agree. With rounding (\<open>calculateDistance_double\<close> below) that need not hold.
\<close>

definition calculateDistance :: "real \<Rightarrow> real \<Rightarrow> real \<Rightarrow> real \<Rightarrow> real" where
  "calculateDistance lat1 lon1 lat2 lon2 =
     (let R = 6371;
          dLat = (lat2 - lat1) * (pi / 180);
          dLon = (lon2 - lon1) * (pi / 180);
          a = sin (dLat / 2) * sin (dLat / 2) +
              cos (lat1 * (pi / 180)) * cos (lat2 * (pi / 180)) * sin (dLon / 2) * sin (dLon / 2);
          c = 2 * atan2 (sqrt a) (sqrt (1 - a));
          distance = R * c
      in distance)"

text \<open>The term \<open>a\<close> of \<open>calculateDistance\<close> on its own, for the statements about it.\<close>

definition haversine_a :: "real \<Rightarrow> real \<Rightarrow> real \<Rightarrow> real \<Rightarrow> real" where
  "haversine_a lat1 lon1 lat2 lon2 =
     sin ((lat2 - lat1) * (pi / 180) / 2) * sin ((lat2 - lat1) * (pi / 180) / 2) +
     cos (lat1 * (pi / 180)) * cos (lat2 * (pi / 180)) *
       sin ((lon2 - lon1) * (pi / 180) / 2) * sin ((lon2 - lon1) * (pi / 180) / 2)"


section \<open>Computed numbers and Number.prototype.toFixed\<close>

text \<open>
  A number the code computes from a routing response can be \<^verbatim>\<open>NaN\<close>: the sum of
  \<^verbatim>\<open>undefined\<close> and a number. \<open>Num x\<close> is the finite number \<open>x\<close>. Division by zero
  gives an infinity in JavaScript, which this type does not have; the source divides
  by the constants 40 and 60 only.
\<close>

datatype number = NaN | Num real

instantiation number :: "{plus, times, inverse}"

begin

fun plus_number :: "number \<Rightarrow> number \<Rightarrow> number" where
  "plus_number (Num x) (Num y) = Num (x + y)"
| "plus_number _ _ = NaN"

fun times_number :: "number \<Rightarrow> number \<Rightarrow> number" where
  "times_number (Num x) (Num y) = Num (x * y)"
| "times_number _ _ = NaN"

fun divide_number :: "number \<Rightarrow> number \<Rightarrow> number" where
  "divide_number (Num x) (Num y) = (if y = 0 then NaN else Num (x / y))"
| "divide_number _ _ = NaN"

fun inverse_number :: "number \<Rightarrow> number" where
  "inverse_number (Num x) = (if x = 0 then NaN else Num (1 / x))"
| "inverse_number NaN = NaN"

instance ..

end

text \<open>
  \<^verbatim>\<open>ToNumber\<close> of a property that is a number or \<^verbatim>\<open>undefined\<close> (\<open>None\<close>).
\<close>

definition to_number :: "real option \<Rightarrow> number" where
  "to_number v = (case v of None \<Rightarrow> NaN | Some x \<Rightarrow> Num x)"

definition digit :: "nat \<Rightarrow> char" where
  "digit d = ''0123456789'' ! d"

fun decimal :: "nat \<Rightarrow> string" where
  "decimal n = (if n < 10 then [digit n] else decimal (n div 10) @ [digit (n mod 10)])"

declare decimal.simps [simp del]

text \<open>
  \<^verbatim>\<open>x.toFixed(f)\<close> after ECMA-262 (Number.prototype.toFixed), for \<open>f\<close> from 0 to 100:
  \<^verbatim>\<open>NaN\<close> prints as \<^verbatim>\<open>"NaN"\<close>; a negative number prints its sign and then its
  magnitude; a magnitude of \<open>10\<^sup>2\<^sup>1\<close> or more is printed by \<^verbatim>\<open>Number::toString\<close>,
  whose digits depend on the binary representation and which is therefore a parameter
  \<open>toString\<close> here; a smaller magnitude is printed as the integer \<open>n\<close> nearest to
  \<open>x * 10\<^sup>f\<close> (the larger one of two), padded with zeros to \<open>f + 1\<close> digits, a point
  before the last \<open>f\<close> digits.
\<close>

definition toFixed :: "(real \<Rightarrow> string) \<Rightarrow> nat \<Rightarrow> number \<Rightarrow> string" where
  "toFixed toString f v =
     (case v of
        NaN \<Rightarrow> ''NaN''
      | Num x0 \<Rightarrow>
          (let s = (if x0 < 0 then ''-'' else []);
               x = (if x0 < 0 then - x0 else x0)
           in if 10 ^ 21 \<le> x then s @ toString x
              else
                (let n = nat \<lfloor>x * 10 ^ f + 1 / 2\<rfloor>;
                     m0 = decimal n;
                     m = (if length m0 \<le> f then replicate (f + 1 - length m0) CHR ''0'' @ m0
                          else m0);
                     k = length m
                 in if f \<noteq> 0 then s @ take (k - f) m @ ''.'' @ drop (k - f) m
                    else s @ m)))"


section \<open>calculateDistance in binary64\<close>

text \<open>
  An operation on two numbers: \<^verbatim>\<open>NaN\<close> if either is, the rounded exact result
  otherwise. A division by zero gives an infinity or \<^verbatim>\<open>NaN\<close> in the language; the
  code below divides by the constants 2, 40 and 180 only.
\<close>

fun dbl :: "(real \<Rightarrow> real \<Rightarrow> real) \<Rightarrow> number \<Rightarrow> number \<Rightarrow> number" where
  "dbl f (Num x) (Num y) = Num (double (f x y))"
| "dbl f _ _ = NaN"

fun dbl_div :: "number \<Rightarrow> number \<Rightarrow> number" where
  "dbl_div (Num x) (Num y) = (if y = 0 then NaN else Num (double (x / y)))"
| "dbl_div _ _ = NaN"

text \<open>
  \<^verbatim>\<open>Math.sin\<close>, \<^verbatim>\<open>Math.cos\<close>, \<^verbatim>\<open>Math.sqrt\<close> and \<^verbatim>\<open>Math.atan2\<close> on finite numbers.
  ECMA-262 leaves their values to the implementation (an approximation of the exact
  function), so they are parameters. \<^verbatim>\<open>Math.sqrt\<close> of a negative number is \<^verbatim>\<open>NaN\<close>.
  \<^verbatim>\<open>Math.PI\<close> is the binary64 number nearest to \<open>\<pi>\<close>.
\<close>

record math =
  Math_sin :: "real \<Rightarrow> real"
  Math_cos :: "real \<Rightarrow> real"
  Math_sqrt :: "real \<Rightarrow> real"
  Math_atan2 :: "real \<Rightarrow> real \<Rightarrow> real"

fun sin_of :: "math \<Rightarrow> number \<Rightarrow> number" where
  "sin_of M (Num x) = Num (Math_sin M x)"
| "sin_of M NaN = NaN"

fun cos_of :: "math \<Rightarrow> number \<Rightarrow> number" where
  "cos_of M (Num x) = Num (Math_cos M x)"
| "cos_of M NaN = NaN"

fun sqrt_of :: "math \<Rightarrow> number \<Rightarrow> number" where
  "sqrt_of M (Num x) = (if x < 0 then NaN else Num (Math_sqrt M x))"
| "sqrt_of M NaN = NaN"

fun atan2_of :: "math \<Rightarrow> number \<Rightarrow> number \<Rightarrow> number" where
  "atan2_of M (Num y) (Num x) = Num (Math_atan2 M y x)"
| "atan2_of M _ _ = NaN"

definition Math_PI :: number where
  "Math_PI = Num (double pi)"

text \<open>
  \<open>calculateDistance\<close> (lines 209-228) operation for operation, in the order in which
  the language evaluates them. Where rounding leaves \<open>a\<close> above 1, the square root of
  \<open>1 - a\<close> is \<^verbatim>\<open>NaN\<close>, and so are the distance and the time.
\<close>

definition calculateDistance_double :: "math \<Rightarrow> real \<Rightarrow> real \<Rightarrow> real \<Rightarrow> real \<Rightarrow> number" where
  "calculateDistance_double M lat1 lon1 lat2 lon2 =
     (let R = Num 6371;
          dLat = dbl (*) (dbl (-) (Num lat2) (Num lat1)) (dbl_div Math_PI (Num 180));
          dLon = dbl (*) (dbl (-) (Num lon2) (Num lon1)) (dbl_div Math_PI (Num 180));
          a = dbl (+)
                (dbl (*) (sin_of M (dbl_div dLat (Num 2))) (sin_of M (dbl_div dLat (Num 2))))
                (dbl (*)
                   (dbl (*)
                      (dbl (*) (cos_of M (dbl (*) (Num lat1) (dbl_div Math_PI (Num 180))))
                               (cos_of M (dbl (*) (Num lat2) (dbl_div Math_PI (Num 180)))))
                      (sin_of M (dbl_div dLon (Num 2))))
                   (sin_of M (dbl_div dLon (Num 2))));
          c = dbl (*) (Num 2) (atan2_of M (sqrt_of M a) (sqrt_of M (dbl (-) (Num 1) a)));
          distance = dbl (*) R c
      in distance)"

text \<open>
  The time the code substitutes for the first leg (line 122):
  \<^verbatim>\<open>(distanceToUser / 40) * 3600\<close>, with the distance from the marker to the rider.
\<close>

definition timeToUser_double :: "math \<Rightarrow> real \<Rightarrow> real \<Rightarrow> real \<Rightarrow> real \<Rightarrow> number" where
  "timeToUser_double M markerLatitude markerLongitude userLatitude userLongitude =
     dbl (*) (dbl_div (calculateDistance_double M markerLatitude markerLongitude
                         userLatitude userLongitude) (Num 40))
             (Num 3600)"

text \<open>The term \<open>a\<close> of \<open>calculateDistance\<close> in binary64, for the statements about it.\<close>

definition haversine_a_double :: "math \<Rightarrow> real \<Rightarrow> real \<Rightarrow> real \<Rightarrow> real \<Rightarrow> real" where
  "haversine_a_double M lat1 lon1 lat2 lon2 =
     (let K = double (double pi / 180);
          dLat = double (double (lat2 - lat1) * K);
          dLon = double (double (lon2 - lon1) * K)
      in double
           (double (Math_sin M (double (dLat / 2)) * Math_sin M (double (dLat / 2))) +
            double
              (double
                 (double (Math_cos M (double (lat1 * K)) * Math_cos M (double (lat2 * K))) *
                    Math_sin M (double (dLon / 2))) *
               Math_sin M (double (dLon / 2)))))"


section \<open>Markers, the routing service and its responses\<close>

text \<open>
  \<^verbatim>\<open>MarkerData\<close>: the fields of \<^verbatim>\<open>Driver\<close>, the position and title that
  \<^verbatim>\<open>generateMarkersFromData\<close> adds, and the two optional computed fields. The
  source's \<^verbatim>\<open>id\<close> is \<open>driver_id\<close> here.
\<close>

record marker =
  driver_id :: int
  first_name :: string
  last_name :: string
  profile_image_url :: string
  car_image_url :: string
  car_seats :: int
  rating :: real
  latitude :: real
  longitude :: real
  title :: string
  time :: "number option"
  price :: "string option"

text \<open>
  A routing request: the two waypoints of the URL (latitude and longitude of the start,
  then of the end) and the API key; the mode is always \<^verbatim>\<open>drive\<close>.
\<close>

datatype request = Routing real real real real string

text \<open>
  The decoded body of a response, at the shape the code inspects.
  \<^item> \<open>Routing_data None\<close>: a body whose \<^verbatim>\<open>features\<close> is missing or falsy;
    \<open>Routing_data (Some fs)\<close>: \<^verbatim>\<open>features\<close> is the array \<open>fs\<close>. (A truthy
    \<^verbatim>\<open>features\<close> that is no array behaves, in every expression of the source, as an
    array whose first element has no \<^verbatim>\<open>properties\<close>.)
  \<^item> \<open>Feature None\<close>: an element with no \<^verbatim>\<open>properties\<close> object (reading
    \<^verbatim>\<open>.properties.time\<close> of it raises a TypeError, reading it through \<^verbatim>\<open>?.\<close> gives
    \<^verbatim>\<open>undefined\<close>).
  \<^item> \<open>Properties None\<close>: a \<^verbatim>\<open>properties\<close> object with no \<^verbatim>\<open>time\<close>;
    \<open>Properties (Some t)\<close>: \<^verbatim>\<open>time\<close> is the number \<open>t\<close>, in seconds.
  A \<^verbatim>\<open>time\<close> that is not a number (a string, a boolean) is outside the model.
\<close>

datatype properties = Properties "real option"

datatype feature = Feature "properties option"

datatype routing_data = Routing_data "feature list option"

datatype exn = NetworkError | SyntaxError | TypeError

text \<open>
  The environment of \<^verbatim>\<open>calculateDriverTimes\<close>.
  \<^item> \<open>geoapifyAPI\<close>: the module constant read from the process environment, a string or
    \<^verbatim>\<open>undefined\<close>.
  \<^item> \<open>fetch_json\<close>: what \<^verbatim>\<open>await fetch(url)\<close> followed by \<^verbatim>\<open>await response.json()\<close>
    gives for the call number \<open>k\<close> (0 for the first call, 1 for the second) of the task
    of the marker at index \<open>i\<close>: \<open>Inl\<close> when either of them raises, \<open>Inr\<close> the decoded
    body otherwise. Indexing by task and call lets every call be answered on its own,
    as a network does; the interleaving of the tasks is not modelled. A body on which
    reading \<^verbatim>\<open>.features\<close> raises (the JSON \<^verbatim>\<open>null\<close>) behaves as a raise of the call.
  \<^item> \<open>numberToString\<close>: \<^verbatim>\<open>Number::toString\<close>, for \<open>toFixed\<close>.
  Logging (\<^verbatim>\<open>console.log\<close>, \<^verbatim>\<open>console.error\<close>) is left out.
\<close>

record env =
  geoapifyAPI :: "string option"
  fetch_json :: "nat \<Rightarrow> nat \<Rightarrow> request \<Rightarrow> exn + routing_data"
  numberToString :: "real \<Rightarrow> string"

text \<open>\<^verbatim>\<open>!data.features || data.features.length === 0\<close>\<close>

definition no_features :: "routing_data \<Rightarrow> bool" where
  "no_features d =
     (case d of Routing_data None \<Rightarrow> True | Routing_data (Some fs) \<Rightarrow> length fs = 0)"

text \<open>\<^verbatim>\<open>data.features[0].properties.time\<close>: \<open>Inr None\<close> is \<^verbatim>\<open>undefined\<close>.\<close>

definition first_time :: "routing_data \<Rightarrow> exn + real option" where
  "first_time d =
     (case d of
        Routing_data None \<Rightarrow> Inl TypeError
      | Routing_data (Some []) \<Rightarrow> Inl TypeError
      | Routing_data (Some (Feature None # _)) \<Rightarrow> Inl TypeError
      | Routing_data (Some (Feature (Some (Properties t)) # _)) \<Rightarrow> Inr t)"

text \<open>\<^verbatim>\<open>data.features?.[0]?.properties?.time\<close>: \<open>None\<close> is \<^verbatim>\<open>undefined\<close>.\<close>

definition first_time_opt :: "routing_data \<Rightarrow> real option" where
  "first_time_opt d =
     (case d of
        Routing_data None \<Rightarrow> None
      | Routing_data (Some []) \<Rightarrow> None
      | Routing_data (Some (Feature None # _)) \<Rightarrow> None
      | Routing_data (Some (Feature (Some (Properties t)) # _)) \<Rightarrow> t)"

text \<open>\<^verbatim>\<open>v || other\<close> for a number or \<^verbatim>\<open>undefined\<close> on the left: 0 is falsy too.\<close>

definition or_else :: "real option \<Rightarrow> real \<Rightarrow> real" where
  "or_else v other = (if truthy v then num v else other)"


section \<open>calculateDriverTimes (map.ts, lines 75-207)\<close>

text \<open>
  The marker both \<^verbatim>\<open>catch\<close> blocks return (lines 174-185 and 195-204, the same
  computation): time and price from the distance between rider and destination.
\<close>

definition estimatedMarker :: "env \<Rightarrow> marker \<Rightarrow> real \<Rightarrow> real \<Rightarrow> real \<Rightarrow> real \<Rightarrow> marker" where
  "estimatedMarker E marker userLatitude userLongitude destinationLatitude destinationLongitude =
     (let distance = calculateDistance userLatitude userLongitude
                       destinationLatitude destinationLongitude;
          estimatedTime = Num ((distance / 40) * 60);
          estimatedPrice = toFixed (numberToString E) 2 (estimatedTime * Num 0.5)
      in marker\<lparr>time := Some estimatedTime, price := Some estimatedPrice\<rparr>)"

text \<open>
  The \<^verbatim>\<open>try\<close> block of the task of one marker (lines 106-172): the requests it
  issued, in order, and either the exception that left the block or the marker it
  returns.
\<close>

definition driverTask_try ::
  "env \<Rightarrow> string \<Rightarrow> nat \<Rightarrow> marker \<Rightarrow> real \<Rightarrow> real \<Rightarrow> real \<Rightarrow> real
     \<Rightarrow> request list \<times> (exn + marker)" where
  "driverTask_try E key i marker userLatitude userLongitude destinationLatitude destinationLongitude =
     (let toUser = Routing (latitude marker) (longitude marker) userLatitude userLongitude key;
          toDestination = Routing userLatitude userLongitude
                            destinationLatitude destinationLongitude key
      in case fetch_json E i 0 toUser of
           Inl error \<Rightarrow> ([toUser], Inl error)
         | Inr dataToUser \<Rightarrow>
             if no_features dataToUser then
               (let distanceToUser = calculateDistance (latitude marker) (longitude marker)
                                       userLatitude userLongitude;
                    timeToUser = (distanceToUser / 40) * 3600
                in case fetch_json E i 1 toDestination of
                     Inl error \<Rightarrow> ([toUser, toDestination], Inl error)
                   | Inr dataToDestination \<Rightarrow>
                       (let timeToDestination =
                              or_else (first_time_opt dataToDestination)
                                ((calculateDistance userLatitude userLongitude
                                    destinationLatitude destinationLongitude / 40) * 3600);
                            totalTime = (Num timeToUser + Num timeToDestination) / Num 60;
                            price = toFixed (numberToString E) 2 (totalTime * Num 0.5)
                        in ([toUser, toDestination],
                            Inr (marker\<lparr>time := Some totalTime, price := Some price\<rparr>))))
             else
               (case first_time dataToUser of
                  Inl error \<Rightarrow> ([toUser], Inl error)
                | Inr timeToUser \<Rightarrow>
                    (case fetch_json E i 1 toDestination of
                       Inl error \<Rightarrow> ([toUser, toDestination], Inl error)
                     | Inr dataToDestination \<Rightarrow>
                         if no_features dataToDestination then
                           (let distanceToDestination =
                                  calculateDistance userLatitude userLongitude
                                    destinationLatitude destinationLongitude;
                                timeToDestination = (distanceToDestination / 40) * 3600;
                                totalTime =
                                  (to_number timeToUser + Num timeToDestination) / Num 60;
                                price = toFixed (numberToString E) 2 (totalTime * Num 0.5)
                            in ([toUser, toDestination],
                                Inr (marker\<lparr>time := Some totalTime, price := Some price\<rparr>)))
                         else
                           (case first_time dataToDestination of
                              Inl error \<Rightarrow> ([toUser, toDestination], Inl error)
                            | Inr timeToDestination \<Rightarrow>
                                (let totalTime =
                                       (to_number timeToUser + to_number timeToDestination)
                                         / Num 60;
                                     price = toFixed (numberToString E) 2 (totalTime * Num 0.5)
                                 in ([toUser, toDestination],
                                     Inr (marker\<lparr>time := Some totalTime,
                                                   price := Some price\<rparr>)))))))"

text \<open>
  The task of one marker, an \<^verbatim>\<open>async\<close> function (lines 104-187): the \<^verbatim>\<open>try\<close> block
  with its \<^verbatim>\<open>catch\<close>. Its value is how its promise settles: \<open>Inl\<close> rejected, \<open>Inr\<close>
  fulfilled.
\<close>

definition driverTask ::
  "env \<Rightarrow> string \<Rightarrow> nat \<Rightarrow> marker \<Rightarrow> real \<Rightarrow> real \<Rightarrow> real \<Rightarrow> real
     \<Rightarrow> request list \<times> (exn + marker)" where
  "driverTask E key i marker userLatitude userLongitude destinationLatitude destinationLongitude =
     (case driverTask_try E key i marker userLatitude userLongitude
             destinationLatitude destinationLongitude of
        (requests, Inl error) \<Rightarrow>
          (requests, Inr (estimatedMarker E marker userLatitude userLongitude
                            destinationLatitude destinationLongitude))
      | (requests, Inr result) \<Rightarrow> (requests, Inr result))"

text \<open>
  \<^verbatim>\<open>await Promise.all(promises)\<close>: the values in the order of the promises, or a
  rejection when one of them rejects.
\<close>

fun Promise_all :: "(exn + 'a) list \<Rightarrow> exn + 'a list" where
  "Promise_all [] = Inr []"
| "Promise_all (Inl error # ps) = Inl error"
| "Promise_all (Inr v # ps) =
     (case Promise_all ps of Inl error \<Rightarrow> Inl error | Inr vs \<Rightarrow> Inr (v # vs))"

text \<open>\<^verbatim>\<open>!geoapifyAPI\<close>: \<^verbatim>\<open>undefined\<close> and the empty string are falsy.\<close>

definition key_set :: "string option \<Rightarrow> bool" where
  "key_set k = (case k of None \<Rightarrow> False | Some s \<Rightarrow> s \<noteq> [])"

definition key_text :: "string option \<Rightarrow> string" where
  "key_text k = (case k of None \<Rightarrow> ''undefined'' | Some s \<Rightarrow> s)"

text \<open>
  The result is the list of the requests issued (task by task, in the order of the
  markers) and the value returned: \<open>None\<close> for the \<^verbatim>\<open>return;\<close> of the two guards
  (\<^verbatim>\<open>undefined\<close>), \<open>Some\<close> of the annotated markers otherwise.
\<close>

definition calculateDriverTimes ::
  "env \<Rightarrow> marker list \<Rightarrow> real option \<Rightarrow> real option \<Rightarrow> real option \<Rightarrow> real option
     \<Rightarrow> request list \<times> marker list option" where
  "calculateDriverTimes E markers userLatitude userLongitude destinationLatitude destinationLongitude =
     (if \<not> truthy userLatitude \<or> \<not> truthy userLongitude \<or>
         \<not> truthy destinationLatitude \<or> \<not> truthy destinationLongitude then ([], None)
      else if \<not> key_set (geoapifyAPI E) then ([], None)
      else
        (let timesPromises =
               map (\<lambda>(i, marker).
                      driverTask E (key_text (geoapifyAPI E)) i marker
                        (num userLatitude) (num userLongitude)
                        (num destinationLatitude) (num destinationLongitude))
                 (List.enumerate 0 markers);
             requests = concat (map fst timesPromises)
         in case Promise_all (map snd timesPromises) of
              Inr results \<Rightarrow> (requests, Some results)
            | Inl error \<Rightarrow>
                (requests,
                 Some (map (\<lambda>marker. estimatedMarker E marker
                                       (num userLatitude) (num userLongitude)
                                       (num destinationLatitude) (num destinationLongitude))
                         markers))))"


section \<open>Predicates of the statements\<close>

text \<open>
  A marker annotated with the time \<open>t\<close> (minutes) and the price of that time at 0.50
  a minute: \<^verbatim>\<open>{ ...marker, time: t, price: (t * 0.5).toFixed(2) }\<close>.
\<close>

definition annotated :: "env \<Rightarrow> marker \<Rightarrow> number \<Rightarrow> marker" where
  "annotated E marker t =
     marker\<lparr>time := Some t, price := Some (toFixed (numberToString E) 2 (t * Num 0.5))\<rparr>"

text \<open>
  A mathematical library is accurate when each of its functions is within a relative
  error of \<open>2\<^sup>-\<^sup>5\<^sup>0\<close> (eight units in the last place) of the exact function, and within
  the least positive number of binary64 where the exact value is smaller than that.
\<close>

definition accurate :: "math \<Rightarrow> bool" where
  "accurate M =
     ((\<forall>x. \<bar>Math_sin M x - sin x\<bar> \<le> \<bar>sin x\<bar> / 2 ^ 50 + 2 * tiny) \<and>
      (\<forall>x. \<bar>Math_cos M x - cos x\<bar> \<le> \<bar>cos x\<bar> / 2 ^ 50 + 2 * tiny) \<and>
      (\<forall>x. 0 \<le> x \<longrightarrow> \<bar>Math_sqrt M x - sqrt x\<bar> \<le> sqrt x / 2 ^ 50 + 2 * tiny) \<and>
      (\<forall>y x. \<bar>Math_atan2 M y x - atan2 y x\<bar> \<le> \<bar>atan2 y x\<bar> / 2 ^ 50 + 2 * tiny))"


section \<open>Sample inputs\<close>

text \<open>
  The rider and the destination of the scenarios are San Francisco
  \<open>(37.7749, -122.4194)\<close> and San Jose \<open>(37.3382, -121.8863)\<close>.
\<close>

definition sample_marker :: marker where
  "sample_marker =
     \<lparr>driver_id = 1, first_name = ''James'', last_name = ''Wilson'',
      profile_image_url = ''profile.png'', car_image_url = ''car.png'',
      car_seats = 4, rating = 4.8, latitude = 37.78, longitude = -122.42,
      title = ''James Wilson'', time = None, price = None\<rparr>"

definition second_marker :: marker where
  "second_marker =
     \<lparr>driver_id = 2, first_name = ''David'', last_name = ''Brown'',
      profile_image_url = ''profile2.png'', car_image_url = ''car2.png'',
      car_seats = 5, rating = 4.6, latitude = 37.77, longitude = -122.41,
      title = ''David Brown'', time = None, price = None\<rparr>"

definition sample_env :: "(nat \<Rightarrow> nat \<Rightarrow> request \<Rightarrow> exn + routing_data) \<Rightarrow> env" where
  "sample_env net =
     \<lparr>geoapifyAPI = Some ''key'', fetch_json = net, numberToString = (\<lambda>x. ''1e+21'')\<rparr>"

text \<open>A response with one feature whose \<^verbatim>\<open>properties.time\<close> is \<open>t\<close>; one with no feature.\<close>

definition routed :: "real \<Rightarrow> exn + routing_data" where
  "routed t = Inr (Routing_data (Some [Feature (Some (Properties (Some t)))]))"

definition empty_result :: "exn + routing_data" where
  "empty_result = Inr (Routing_data (Some []))"

definition scenario_net :: "nat \<Rightarrow> nat \<Rightarrow> request \<Rightarrow> exn + routing_data" where
  "scenario_net i k r = (if k = 0 then routed 300 else routed 600)"

definition failing_net :: "nat \<Rightarrow> nat \<Rightarrow> request \<Rightarrow> exn + routing_data" where
  "failing_net i k r = Inl NetworkError"

definition empty_net :: "nat \<Rightarrow> nat \<Rightarrow> request \<Rightarrow> exn + routing_data" where
  "empty_net i k r = empty_result"

definition partial_net :: "nat \<Rightarrow> nat \<Rightarrow> request \<Rightarrow> exn + routing_data" where
  "partial_net i k r = (if k = 0 then empty_result else routed 600)"

definition zero_net :: "nat \<Rightarrow> nat \<Rightarrow> request \<Rightarrow> exn + routing_data" where
  "zero_net i k r = (if k = 0 then routed 300 else routed 0)"

definition zero_fallback_net :: "nat \<Rightarrow> nat \<Rightarrow> request \<Rightarrow> exn + routing_data" where
  "zero_fallback_net i k r = (if k = 0 then empty_result else routed 0)"

text \<open>
  A response whose first feature has \<^verbatim>\<open>properties\<close> without a \<^verbatim>\<open>time\<close>, as
  \<^verbatim>\<open>{"features": [{"properties": {}}]}\<close>; the routing service answering so for the
  first leg, and for the second leg after a first leg with no features.
\<close>

definition no_time :: "exn + routing_data" where
  "no_time = Inr (Routing_data (Some [Feature (Some (Properties None))]))"

definition no_time_net :: "nat \<Rightarrow> nat \<Rightarrow> request \<Rightarrow> exn + routing_data" where
  "no_time_net i k r = (if k = 0 then no_time else routed 600)"

definition no_time_fallback_net :: "nat \<Rightarrow> nat \<Rightarrow> request \<Rightarrow> exn + routing_data" where
  "no_time_fallback_net i k r = (if k = 0 then empty_result else no_time)"

text \<open>The mathematical library that returns the binary64 number nearest to the exact value.\<close>

definition rounded_math :: math where
  "rounded_math =
     \<lparr>Math_sin = (\<lambda>x. double (sin x)), Math_cos = (\<lambda>x. double (cos x)),
      Math_sqrt = (\<lambda>x. double (sqrt x)), Math_atan2 = (\<lambda>y x. double (atan2 y x))\<rparr>"


section \<open>Basic facts\<close>

lemma truthy_Some [simp]: "truthy (Some x) = (x \<noteq> 0)"
  by (simp add: truthy_def)

lemma truthy_None [simp]: "\<not> truthy None"
  by (simp add: truthy_def)

lemma num_Some [simp]: "num (Some x) = x"
  by (simp add: num_def)

lemma Num_arith [simp]:
  "Num x + Num y = Num (x + y)"
  "Num x * Num y = Num (x * y)"
  "Num x / Num 60 = Num (x / 60)"
  by simp_all


section \<open>The region\<close>

text \<open>
  Claim C5 says that both deltas of every region \<open>calculateRegion\<close> returns are strictly
  positive. They are not when rider and destination are both present and share a
  coordinate: the delta of that axis is 1.3 times a span of 0. Here rider and
  destination are the same point.
\<close>

theorem calculateRegion_zero_delta:
  "\<not> 0 < latitudeDelta (calculateRegion (Some 37.7749) (Some (-122.4194))
                                         (Some 37.7749) (Some (-122.4194)))"
  by (simp add: calculateRegion_def)

text \<open>
  Claim C5, amended: both deltas of the region are non-negative for all arguments, and
  a delta is strictly positive exactly when the rider or the destination is absent
  (falsy) or the two differ on that axis.
\<close>

theorem calculateRegion_deltas:
  "0 \<le> latitudeDelta (calculateRegion ulat ulng dlat dlng) \<and>
   0 \<le> longitudeDelta (calculateRegion ulat ulng dlat dlng) \<and>
   (0 < latitudeDelta (calculateRegion ulat ulng dlat dlng) \<longleftrightarrow>
      \<not> (truthy ulat \<and> truthy ulng \<and> truthy dlat \<and> truthy dlng \<and> num ulat = num dlat)) \<and>
   (0 < longitudeDelta (calculateRegion ulat ulng dlat dlng) \<longleftrightarrow>
      \<not> (truthy ulat \<and> truthy ulng \<and> truthy dlat \<and> truthy dlng \<and> num ulng = num dlng))"
  by (auto simp: calculateRegion_def Let_def min_def max_def)

theorem calculateRegion_deltas_witness:
  "0 < latitudeDelta (calculateRegion (Some 37.7749) (Some (-122.4194))
                                       (Some 37.3382) (Some (-121.8863))) \<and>
   0 < longitudeDelta (calculateRegion (Some 37.7749) (Some (-122.4194))
                                        (Some 37.3382) (Some (-121.8863))) \<and>
   0 < latitudeDelta (calculateRegion None None None None)"
  using calculateRegion_deltas [of "Some 37.7749" "Some (-122.4194)" "Some 37.3382" "Some (-121.8863)"]
    calculateRegion_deltas [of None None None None]
  by simp


section \<open>Facts about rounding\<close>

text \<open>
  The rounding error of \<open>double\<close>: half a unit in the last place, which is at most
  \<open>2\<^sup>-\<^sup>5\<^sup>3\<close> of the magnitude, or \<open>tiny\<close> among the subnormal numbers. Rounding keeps
  the sign.
\<close>

lemma round_even_error: "\<bar>of_int (round_even y) - y\<bar> \<le> 1 / 2"
proof -
  have "of_int \<lfloor>y\<rfloor> \<le> y" "y < of_int \<lfloor>y\<rfloor> + 1"
    by linarith+
  then show ?thesis
    by (auto simp: round_even_def Let_def)
qed

lemma round_even_nonneg: "0 \<le> y \<Longrightarrow> 0 \<le> round_even y"
  by (auto simp: round_even_def Let_def)

lemma round_even_nonpos:
  assumes "y \<le> 0"
  shows "round_even y \<le> 0"
proof (cases "y = of_int \<lfloor>y\<rfloor>")
  case True
  then have "round_even y = \<lfloor>y\<rfloor>"
    by (simp add: round_even_def Let_def)
  then show ?thesis
    using assms by simp
next
  case False
  then have "of_int \<lfloor>y\<rfloor> < y"
    using of_int_floor_le [of y] by linarith
  then have "of_int \<lfloor>y\<rfloor> < (0::real)"
    using assms by linarith
  then have "\<lfloor>y\<rfloor> < 0"
    by linarith
  then show ?thesis
    by (auto simp: round_even_def Let_def)
qed

lemma round_even_of_int: "round_even (of_int n) = n"
  by (simp add: round_even_def Let_def)

lemma double_zero [simp]: "double 0 = 0"
  by (simp add: double_def)

lemma double_eq:
  assumes "x \<noteq> 0"
  shows "double x =
           of_int (round_even (x / 2 powr of_int (max (\<lfloor>log 2 \<bar>x\<bar>\<rfloor> - 52) (- 1074)))) *
             2 powr of_int (max (\<lfloor>log 2 \<bar>x\<bar>\<rfloor> - 52) (- 1074))"
  using assms by (simp add: double_def Let_def)

lemma ulp_bound:
  assumes "x \<noteq> 0"
  shows "(2::real) powr of_int (max (\<lfloor>log 2 \<bar>x\<bar>\<rfloor> - 52) (- 1074)) \<le> \<bar>x\<bar> / 2 ^ 52 + 2 * tiny"
proof (cases "- 1074 \<le> \<lfloor>log 2 \<bar>x\<bar>\<rfloor> - 52")
  case True
  have "(2::real) powr of_int \<lfloor>log 2 \<bar>x\<bar>\<rfloor> \<le> 2 powr log 2 \<bar>x\<bar>"
    by (simp del: powr_log_cancel)
  also have "\<dots> = \<bar>x\<bar>"
    using assms by simp
  finally have le: "2 powr of_int \<lfloor>log 2 \<bar>x\<bar>\<rfloor> \<le> \<bar>x\<bar>" .
  have "(2::real) powr of_int (\<lfloor>log 2 \<bar>x\<bar>\<rfloor> - 52) = 2 powr of_int \<lfloor>log 2 \<bar>x\<bar>\<rfloor> * 2 powr (- 52)"
    by (simp add: powr_add [symmetric])
  also have "\<dots> = 2 powr of_int \<lfloor>log 2 \<bar>x\<bar>\<rfloor> / 2 ^ 52"
    by (simp add: powr_minus_divide)
  also have "\<dots> \<le> \<bar>x\<bar> / 2 ^ 52"
    using le by (simp add: divide_right_mono)
  finally have "2 powr of_int (\<lfloor>log 2 \<bar>x\<bar>\<rfloor> - 52) \<le> \<bar>x\<bar> / 2 ^ 52" .
  moreover have "max (\<lfloor>log 2 \<bar>x\<bar>\<rfloor> - 52) (- 1074) = \<lfloor>log 2 \<bar>x\<bar>\<rfloor> - 52"
    using True by (rule max_absorb1)
  moreover have "0 \<le> 2 * tiny"
    by (simp add: tiny_def)
  ultimately show ?thesis
    by (simp only:; argo)
next
  case False
  then have "max (\<lfloor>log 2 \<bar>x\<bar>\<rfloor> - 52) (- 1074) = - 1074"
    by simp
  moreover have "(2::real) powr (- 1074) = 2 * tiny"
    by (simp add: powr_minus_divide tiny_def)
  ultimately show ?thesis
    by simp
qed

lemma tiny_pos: "0 < tiny"
  by (simp add: tiny_def)

lemma double_error: "\<bar>double x - x\<bar> \<le> \<bar>x\<bar> / 2 ^ 53 + tiny"
proof (cases "x = 0")
  case True
  then show ?thesis using tiny_pos by simp
next
  case False
  define p :: real where "p = 2 powr of_int (max (\<lfloor>log 2 \<bar>x\<bar>\<rfloor> - 52) (- 1074))"
  have p: "0 < p"
    by (simp add: p_def)
  have "double x - x = (of_int (round_even (x / p)) - x / p) * p"
    using p by (simp add: double_eq [OF False] p_def [symmetric] algebra_simps)
  then have "\<bar>double x - x\<bar> = \<bar>of_int (round_even (x / p)) - x / p\<bar> * p"
    using p by (simp add: abs_mult)
  also have "\<dots> \<le> (1 / 2) * p"
    using p round_even_error [of "x / p"] by (intro mult_right_mono) simp_all
  also have "\<dots> \<le> (1 / 2) * (\<bar>x\<bar> / 2 ^ 52 + 2 * tiny)"
    using ulp_bound [OF False] by (simp add: p_def)
  also have "\<dots> = \<bar>x\<bar> / 2 ^ 53 + tiny"
    by simp
  finally show ?thesis .
qed

lemma double_nonneg: "0 \<le> x \<Longrightarrow> 0 \<le> double x"
  by (cases "x = 0") (simp_all add: double_eq round_even_nonneg)

lemma double_nonpos:
  assumes "x \<le> 0"
  shows "double x \<le> 0"
proof (cases "x = 0")
  case True
  then show ?thesis by simp
next
  case False
  define p :: real where "p = 2 powr of_int (max (\<lfloor>log 2 \<bar>x\<bar>\<rfloor> - 52) (- 1074))"
  have p: "0 < p"
    by (simp add: p_def)
  then have "x / p \<le> 0"
    using assms by (simp add: divide_nonpos_pos)
  then have "round_even (x / p) \<le> 0"
    by (rule round_even_nonpos)
  then have "of_int (round_even (x / p)) * p \<le> 0"
    using p by (simp add: mult_nonpos_nonneg)
  then show ?thesis
    by (simp add: double_eq [OF False] p_def)
qed

lemma double_exact:
  assumes "2 powr of_int e \<le> \<bar>x\<bar>" and "\<bar>x\<bar> < 2 powr of_int (e + 1)" and "- 1022 \<le> e"
  shows "double x = of_int (round_even (x / 2 powr of_int (e - 52))) * 2 powr of_int (e - 52)"
proof -
  have "(0::real) < 2 powr of_int e"
    by simp
  then have pos: "0 < \<bar>x\<bar>"
    using assms(1) by linarith
  then have x: "x \<noteq> 0"
    by simp
  have "\<lfloor>log 2 \<bar>x\<bar>\<rfloor> = e"
    using assms(1,2) pos by (subst floor_log_eq_powr_iff) (simp_all add: add.commute)
  moreover have "max (e - 52) (- 1074) = e - 52"
    using assms(3) by simp
  ultimately show ?thesis
    by (simp only: double_eq [OF x])
qed

lemma double_one [simp]: "double 1 = 1"
proof -
  have "double 1 = of_int (round_even (1 / 2 powr of_int (0 - 52))) * 2 powr of_int (0 - 52)"
    by (rule double_exact) simp_all
  moreover have "(1::real) / 2 powr of_int (0 - 52) = of_int (2 ^ 52)"
    by (simp add: powr_minus_divide)
  moreover have "(2::real) powr of_int (0 - 52) = 1 / 2 ^ 52"
    by (simp add: powr_minus_divide)
  ultimately show ?thesis
    by (simp only: round_even_of_int) simp
qed

text \<open>A sum that lies halfway between two numbers of binary64, and goes to the even one.\<close>

lemma double_two_ulp: "double (1 + (1 + 1 / 2 ^ 52)) = 2"
proof -
  have p: "(2::real) powr of_int (1 - 52) = 1 / 2 ^ 51"
    by (simp add: powr_minus_divide)
  have "double (1 + (1 + 1 / 2 ^ 52)) =
          of_int (round_even ((1 + (1 + 1 / 2 ^ 52)) / 2 powr of_int (1 - 52))) * 2 powr of_int (1 - 52)"
    by (rule double_exact) simp_all
  then have "double (1 + (1 + 1 / 2 ^ 52)) =
          of_int (round_even ((1 + (1 + 1 / 2 ^ 52)) / (1 / 2 ^ 51))) * (1 / 2 ^ 51)"
    by (simp only: p)
  moreover have "(1 + (1 + 1 / 2 ^ 52)) / (1 / 2 ^ 51) = (of_int (2 ^ 52) + 1 / 2 :: real)"
    by simp
  moreover have "round_even (of_int (2 ^ 52) + 1 / 2) = 2 ^ 52"
    unfolding round_even_def by (simp add: Let_def)
  ultimately have "double (1 + (1 + 1 / 2 ^ 52)) = of_int (2 ^ 52) * (1 / 2 ^ 51)"
    by (simp only:)
  then show ?thesis
    by simp
qed

lemma double_lower: "x - \<bar>x\<bar> / 2 ^ 53 - tiny \<le> double x"
  using double_error [of x] by (simp; argo)

lemma double_upper: "double x \<le> x + \<bar>x\<bar> / 2 ^ 53 + tiny"
  using double_error [of x] by (simp; argo)

text \<open>The rounded midpoint and the rounded delta of \<open>calculateRegion\<close>, against the exact ones.\<close>

lemma midpoint_error:
  "\<bar>double (double (a + c) / 2) - (a + c) / 2\<bar> \<le> (\<bar>a\<bar> + \<bar>c\<bar>) * (129 / 128) / 2 ^ 53 + 2 * tiny"
proof -
  define S where "S = double (a + c)"
  define A where "A = \<bar>a\<bar> + \<bar>c\<bar>"
  define B where "B = \<bar>S\<bar>"
  define e1 where "e1 = \<bar>S - (a + c)\<bar>"
  define e2 where "e2 = \<bar>double (S / 2) - S / 2\<bar>"
  have "\<bar>a + c\<bar> \<le> A"
    unfolding A_def by (rule abs_triangle_ineq)
  moreover have "e1 \<le> \<bar>a + c\<bar> / 2 ^ 53 + tiny"
    unfolding e1_def S_def by (rule double_error)
  ultimately have 1: "e1 \<le> A / 2 ^ 53 + tiny"
    by (simp; argo)
  have "B \<le> \<bar>a + c\<bar> + e1"
    unfolding B_def e1_def by argo
  then have 2: "B \<le> A * (1 + 1 / 2 ^ 53) + tiny"
    using 1 \<open>\<bar>a + c\<bar> \<le> A\<close> by (simp; argo)
  have "e2 \<le> \<bar>S / 2\<bar> / 2 ^ 53 + tiny"
    unfolding e2_def by (rule double_error)
  then have 3: "e2 \<le> B / 2 / 2 ^ 53 + tiny"
    by (simp add: B_def)
  have "\<bar>double (S / 2) - (a + c) / 2\<bar> \<le> e2 + e1 / 2"
    unfolding e1_def e2_def by argo
  also have "\<dots> \<le> A * (129 / 128) / 2 ^ 53 + 2 * tiny"
    using 1 2 3 tiny_pos \<open>\<bar>a + c\<bar> \<le> A\<close> by (simp; argo)
  finally show ?thesis
    unfolding S_def A_def .
qed

lemma tiny_small: "tiny \<le> 1 / 2 ^ 100"
  by (simp add: tiny_def)

lemma delta_error:
  assumes "0 \<le> s"
  shows "\<bar>double (double s * double (13 / 10)) - 13 / 10 * s\<bar> \<le> 13 / 10 * s / 2 ^ 50 + 4 * tiny"
proof -
  define k where "k = double (13 / 10)"
  define sp where "sp = double s"
  have "\<bar>k - 13 / 10\<bar> \<le> \<bar>13 / 10\<bar> / 2 ^ 53 + 1 / 2 ^ 100"
    using double_error [of "13 / 10"] tiny_small unfolding k_def by (simp only:; argo)
  then have k: "13 / 10 * (1 - 1 / 2 ^ 52) \<le> k" "k \<le> 13 / 10 * (1 + 1 / 2 ^ 52)"
    by (simp; argo)+
  have k0: "0 \<le> k"
    using k(1) by simp
  have sp: "s * (1 - 1 / 2 ^ 53) - tiny \<le> sp" "sp \<le> s * (1 + 1 / 2 ^ 53) + tiny"
    using double_error [of s] assms unfolding sp_def by (simp; argo)+
  have sp0: "0 \<le> sp"
    unfolding sp_def using assms by (rule double_nonneg)
  have "sp * k \<le> (s * (1 + 1 / 2 ^ 53) + tiny) * (13 / 10 * (1 + 1 / 2 ^ 52))"
    using sp(2) k(2) k0 sp0 assms tiny_pos by (intro mult_mono) simp_all
  then have up: "sp * k \<le> 13 / 10 * s * (1 + 1 / 2 ^ 53) * (1 + 1 / 2 ^ 52) + 2 * tiny"
    using tiny_pos by (simp; argo)
  have "(s * (1 - 1 / 2 ^ 53) - tiny) * (13 / 10 * (1 - 1 / 2 ^ 52)) \<le> sp * (13 / 10 * (1 - 1 / 2 ^ 52))"
    using sp(1) by (intro mult_right_mono) simp_all
  also have "\<dots> \<le> sp * k"
    using k(1) sp0 by (intro mult_left_mono)
  finally have lo: "13 / 10 * s * (1 - 1 / 2 ^ 53) * (1 - 1 / 2 ^ 52) - 2 * tiny \<le> sp * k"
    using tiny_pos by (simp; argo)
  have p0: "0 \<le> sp * k"
    using sp0 k0 by simp
  have "\<bar>double (sp * k) - sp * k\<bar> \<le> sp * k / 2 ^ 53 + tiny"
    using double_error [of "sp * k"] p0 by simp
  then show ?thesis
    unfolding k_def [symmetric] sp_def [symmetric] using up lo assms tiny_pos by (simp; argo)
qed

lemma axis_contains:
  assumes sep: "(\<bar>a\<bar> + \<bar>c\<bar>) / 2 ^ 50 \<le> \<bar>a - c\<bar>" and big: "1 / 2 ^ 1060 \<le> \<bar>a - c\<bar>"
  shows "double (double (a + c) / 2) - double (double (max a c - min a c) * double (13 / 10)) / 2 < a \<and>
         a < double (double (a + c) / 2) + double (double (max a c - min a c) * double (13 / 10)) / 2 \<and>
         double (double (a + c) / 2) - double (double (max a c - min a c) * double (13 / 10)) / 2 < c \<and>
         c < double (double (a + c) / 2) + double (double (max a c - min a c) * double (13 / 10)) / 2"
proof -
  define s where "s = \<bar>a - c\<bar>"
  define m where "m = double (double (a + c) / 2)"
  define D where "D = double (double s * double (13 / 10))"
  have span: "max a c - min a c = s"
    by (simp add: s_def max_def min_def)
  have s: "0 < s"
    using big unfolding s_def by (rule less_le_trans [rotated]) simp
  have eta: "tiny \<le> s / 2 ^ 15"
    using big unfolding s_def by (simp add: tiny_def field_simps)
  have "(\<bar>a\<bar> + \<bar>c\<bar>) * (129 / 128) / 2 ^ 53 = (\<bar>a\<bar> + \<bar>c\<bar>) / 2 ^ 50 * (129 / 1024)"
    by simp
  also have "\<dots> \<le> s * (129 / 1024)"
    using sep unfolding s_def by (intro mult_right_mono) simp_all
  finally have "\<bar>m - (a + c) / 2\<bar> \<le> s * (129 / 1024) + 2 * tiny"
    using midpoint_error [of a c] unfolding m_def by (simp; argo)
  then have mid: "\<bar>m - (a + c) / 2\<bar> \<le> s * (130 / 1024)"
    using eta s by (simp; argo)
  have "\<bar>D - 13 / 10 * s\<bar> \<le> 13 / 10 * s / 2 ^ 50 + 4 * tiny"
    unfolding D_def using s by (intro delta_error) simp
  then have D: "s * (128 / 100) \<le> D"
    using eta s by (simp; argo)
  have "\<bar>a - (a + c) / 2\<bar> = s / 2" "\<bar>c - (a + c) / 2\<bar> = s / 2"
    unfolding s_def by (simp_all add: abs_if field_simps)
  then have "\<bar>a - m\<bar> < D / 2" "\<bar>c - m\<bar> < D / 2"
    using mid D s by argo+
  then show ?thesis
    unfolding span m_def [symmetric] D_def [symmetric] by argo
qed


section \<open>The region contains rider and destination\<close>

text \<open>
  Claim C6 says that for distinct present coordinates the bounding box strictly
  contains rider and destination. Two distinct points on the same parallel give a box
  of no extent in latitude, which contains neither of them strictly, over the reals and
  in binary64. In binary64, two latitudes that are neighbours (1 and the next number
  after it) have a sum that rounds to 2, so the centre is the rider's latitude, and the
  delta is less than twice their distance: the destination is outside the box.
\<close>

theorem calculateRegion_not_strict:
  "\<not> strictly_inside (calculateRegion (Some 37.7749) (Some (-122.4194))
                                        (Some 37.7749) (Some (-121.8863)))
        37.7749 (-122.4194) \<and>
   \<not> strictly_inside (calculateRegion_double (Some 37.7749) (Some (-122.4194))
                                               (Some 37.7749) (Some (-121.8863)))
        37.7749 (-122.4194) \<and>
   region.latitude (calculateRegion_double (Some 1) (Some 1) (Some (1 + 1 / 2 ^ 52)) (Some 2)) +
     latitudeDelta (calculateRegion_double (Some 1) (Some 1) (Some (1 + 1 / 2 ^ 52)) (Some 2)) / 2
     < 1 + 1 / 2 ^ 52 \<and>
   \<not> strictly_inside (calculateRegion_double (Some 1) (Some 1) (Some (1 + 1 / 2 ^ 52)) (Some 2))
        (1 + 1 / 2 ^ 52) 2"
proof -
  have exact: "\<not> strictly_inside (calculateRegion (Some 37.7749) (Some (-122.4194))
                                        (Some 37.7749) (Some (-121.8863)))
        37.7749 (-122.4194)"
    by (simp add: calculateRegion_def strictly_inside_def)
  have "latitudeDelta (calculateRegion_double (Some 37.7749) (Some (-122.4194))
                        (Some 37.7749) (Some (-121.8863))) = 0"
    by (simp add: calculateRegion_double_def)
  then have parallel: "\<not> strictly_inside (calculateRegion_double (Some 37.7749) (Some (-122.4194))
                                               (Some 37.7749) (Some (-121.8863)))
        37.7749 (-122.4194)"
    by (simp add: strictly_inside_def)
  have centre: "region.latitude (calculateRegion_double (Some 1) (Some 1) (Some (1 + 1 / 2 ^ 52)) (Some 2))
                  = double (double (1 + (1 + 1 / 2 ^ 52)) / 2)"
    by (simp add: calculateRegion_double_def)
  have delta: "latitudeDelta (calculateRegion_double (Some 1) (Some 1) (Some (1 + 1 / 2 ^ 52)) (Some 2))
                 = double (double (1 / 2 ^ 52) * double (13 / 10))"
    by (simp add: calculateRegion_double_def)
  have "\<bar>double (double (1 / 2 ^ 52) * double (13 / 10)) - 13 / 10 * (1 / 2 ^ 52)\<bar>
          \<le> 13 / 10 * (1 / 2 ^ 52) / 2 ^ 50 + 4 * tiny"
    by (rule delta_error) simp
  then have "double (double (1 / 2 ^ 52) * double (13 / 10)) / 2 < 1 / 2 ^ 52"
    using tiny_small by (simp; argo)
  then have out: "region.latitude (calculateRegion_double (Some 1) (Some 1) (Some (1 + 1 / 2 ^ 52)) (Some 2)) +
     latitudeDelta (calculateRegion_double (Some 1) (Some 1) (Some (1 + 1 / 2 ^ 52)) (Some 2)) / 2
     < 1 + 1 / 2 ^ 52"
    unfolding centre delta double_two_ulp by simp
  then have "\<not> strictly_inside (calculateRegion_double (Some 1) (Some 1) (Some (1 + 1 / 2 ^ 52)) (Some 2))
        (1 + 1 / 2 ^ 52) 2"
    unfolding strictly_inside_def by argo
  with exact parallel out show ?thesis
    by (intro conjI)
qed

text \<open>
  Claim C6, amended: when rider and destination are present (truthy), of magnitude at
  most \<open>2\<^sup>1\<^sup>0\<^sup>2\<^sup>2\<close> (so that no operation overflows), and on each axis their distance is at
  least \<open>2\<^sup>-\<^sup>5\<^sup>0\<close> of the sum of their magnitudes and at least \<open>2\<^sup>-\<^sup>1\<^sup>0\<^sup>6\<^sup>0\<close>, then in binary64
  the centre of the region is the midpoint on each axis and each delta is 1.3 times the
  span of its axis, up to the rounding error stated, and the bounding box strictly
  contains both points.
\<close>

theorem calculateRegion_double_contains:
  assumes "ulat \<noteq> 0" "ulng \<noteq> 0" "dlat \<noteq> 0" "dlng \<noteq> 0"
    and "\<bar>ulat\<bar> \<le> 2 ^ 1022" "\<bar>ulng\<bar> \<le> 2 ^ 1022" "\<bar>dlat\<bar> \<le> 2 ^ 1022" "\<bar>dlng\<bar> \<le> 2 ^ 1022"
    and "(\<bar>ulat\<bar> + \<bar>dlat\<bar>) / 2 ^ 50 \<le> \<bar>ulat - dlat\<bar>" "1 / 2 ^ 1060 \<le> \<bar>ulat - dlat\<bar>"
    and "(\<bar>ulng\<bar> + \<bar>dlng\<bar>) / 2 ^ 50 \<le> \<bar>ulng - dlng\<bar>" "1 / 2 ^ 1060 \<le> \<bar>ulng - dlng\<bar>"
  shows "\<bar>region.latitude (calculateRegion_double (Some ulat) (Some ulng) (Some dlat) (Some dlng))
            - (ulat + dlat) / 2\<bar> \<le> (\<bar>ulat\<bar> + \<bar>dlat\<bar>) / 2 ^ 52 + 2 / 2 ^ 1075 \<and>
         \<bar>region.longitude (calculateRegion_double (Some ulat) (Some ulng) (Some dlat) (Some dlng))
            - (ulng + dlng) / 2\<bar> \<le> (\<bar>ulng\<bar> + \<bar>dlng\<bar>) / 2 ^ 52 + 2 / 2 ^ 1075 \<and>
         \<bar>latitudeDelta (calculateRegion_double (Some ulat) (Some ulng) (Some dlat) (Some dlng))
            - 1.3 * \<bar>ulat - dlat\<bar>\<bar> \<le> 1.3 * \<bar>ulat - dlat\<bar> / 2 ^ 50 + 4 / 2 ^ 1075 \<and>
         \<bar>longitudeDelta (calculateRegion_double (Some ulat) (Some ulng) (Some dlat) (Some dlng))
            - 1.3 * \<bar>ulng - dlng\<bar>\<bar> \<le> 1.3 * \<bar>ulng - dlng\<bar> / 2 ^ 50 + 4 / 2 ^ 1075 \<and>
         strictly_inside (calculateRegion_double (Some ulat) (Some ulng) (Some dlat) (Some dlng))
           ulat ulng \<and>
         strictly_inside (calculateRegion_double (Some ulat) (Some ulng) (Some dlat) (Some dlng))
           dlat dlng"
proof -
  have r: "calculateRegion_double (Some ulat) (Some ulng) (Some dlat) (Some dlng) =
             \<lparr>region.latitude = double (double (ulat + dlat) / 2),
              region.longitude = double (double (ulng + dlng) / 2),
              latitudeDelta = double (double (max ulat dlat - min ulat dlat) * double (13 / 10)),
              longitudeDelta = double (double (max ulng dlng - min ulng dlng) * double (13 / 10))\<rparr>"
    using assms(1-4) by (simp add: calculateRegion_double_def Let_def)
  have span: "max ulat dlat - min ulat dlat = \<bar>ulat - dlat\<bar>"
             "max ulng dlng - min ulng dlng = \<bar>ulng - dlng\<bar>"
    by (simp_all add: max_def min_def)
  have "\<bar>double (double (ulat + dlat) / 2) - (ulat + dlat) / 2\<bar>
          \<le> (\<bar>ulat\<bar> + \<bar>dlat\<bar>) * (129 / 128) / 2 ^ 53 + 2 * tiny"
    by (rule midpoint_error)
  then have 1: "\<bar>double (double (ulat + dlat) / 2) - (ulat + dlat) / 2\<bar>
          \<le> (\<bar>ulat\<bar> + \<bar>dlat\<bar>) / 2 ^ 52 + 2 * tiny"
    by (simp; argo)
  have "\<bar>double (double (ulng + dlng) / 2) - (ulng + dlng) / 2\<bar>
          \<le> (\<bar>ulng\<bar> + \<bar>dlng\<bar>) * (129 / 128) / 2 ^ 53 + 2 * tiny"
    by (rule midpoint_error)
  then have 2: "\<bar>double (double (ulng + dlng) / 2) - (ulng + dlng) / 2\<bar>
          \<le> (\<bar>ulng\<bar> + \<bar>dlng\<bar>) / 2 ^ 52 + 2 * tiny"
    by (simp; argo)
  have 3: "\<bar>double (double \<bar>ulat - dlat\<bar> * double (13 / 10)) - 13 / 10 * \<bar>ulat - dlat\<bar>\<bar>
          \<le> 13 / 10 * \<bar>ulat - dlat\<bar> / 2 ^ 50 + 4 * tiny"
    by (rule delta_error) simp
  have 4: "\<bar>double (double \<bar>ulng - dlng\<bar> * double (13 / 10)) - 13 / 10 * \<bar>ulng - dlng\<bar>\<bar>
          \<le> 13 / 10 * \<bar>ulng - dlng\<bar> / 2 ^ 50 + 4 * tiny"
    by (rule delta_error) simp
  note lat = axis_contains [OF assms(9,10), unfolded span]
  note lng = axis_contains [OF assms(11,12), unfolded span]
  show ?thesis
    unfolding r strictly_inside_def span
    using 1 2 3 4 lat lng by (simp add: tiny_def)
qed

theorem calculateRegion_double_contains_witness:
  "\<bar>region.latitude (calculateRegion_double (Some 37.7749) (Some (-122.4194))
                                            (Some 37.3382) (Some (-121.8863)))
      - (37.7749 + 37.3382) / 2\<bar> \<le> (\<bar>37.7749\<bar> + \<bar>37.3382\<bar>) / 2 ^ 52 + 2 / 2 ^ 1075 \<and>
   \<bar>latitudeDelta (calculateRegion_double (Some 37.7749) (Some (-122.4194))
                                          (Some 37.3382) (Some (-121.8863)))
      - 1.3 * \<bar>37.7749 - 37.3382\<bar>\<bar> \<le> 1.3 * \<bar>37.7749 - 37.3382\<bar> / 2 ^ 50 + 4 / 2 ^ 1075 \<and>
   strictly_inside (calculateRegion_double (Some 37.7749) (Some (-122.4194))
                                           (Some 37.3382) (Some (-121.8863))) 37.7749 (-122.4194) \<and>
   strictly_inside (calculateRegion_double (Some 37.7749) (Some (-122.4194))
                                           (Some 37.3382) (Some (-121.8863))) 37.3382 (-121.8863)"
proof -
  have "(\<bar>37.7749\<bar> + \<bar>37.3382\<bar>) / 2 ^ 50 \<le> \<bar>37.7749 - 37.3382 :: real\<bar>"
       "1 / 2 ^ 1060 \<le> \<bar>37.7749 - 37.3382 :: real\<bar>"
       "(\<bar>- 122.4194\<bar> + \<bar>- 121.8863\<bar>) / 2 ^ 50 \<le> \<bar>- 122.4194 - (- 121.8863) :: real\<bar>"
       "1 / 2 ^ 1060 \<le> \<bar>- 122.4194 - (- 121.8863) :: real\<bar>"
    by simp_all
  moreover have "\<bar>37.7749 :: real\<bar> \<le> 2 ^ 1022" "\<bar>- 122.4194 :: real\<bar> \<le> 2 ^ 1022"
                "\<bar>37.3382 :: real\<bar> \<le> 2 ^ 1022" "\<bar>- 121.8863 :: real\<bar> \<le> 2 ^ 1022"
    by simp_all
  ultimately show ?thesis
    using calculateRegion_double_contains [of "37.7749" "-122.4194" "37.3382" "-121.8863"]
    by simp
qed

text \<open>
  Claim C8: when a rider coordinate is absent the region is the fixed default (centre
  37.78825, -122.4324, deltas 0.01); when the rider is present and a destination
  coordinate is absent, the region is centred on the rider with deltas of 0.01. Absent
  is falsy, as the source tests it.
\<close>

theorem calculateRegion_defaults:
  "(\<not> truthy ulat \<or> \<not> truthy ulng \<longrightarrow>
      calculateRegion ulat ulng dlat dlng =
        \<lparr>region.latitude = 37.78825, region.longitude = -122.4324,
         latitudeDelta = 0.01, longitudeDelta = 0.01\<rparr>) \<and>
   (truthy ulat \<and> truthy ulng \<and> (\<not> truthy dlat \<or> \<not> truthy dlng) \<longrightarrow>
      calculateRegion ulat ulng dlat dlng =
        \<lparr>region.latitude = num ulat, region.longitude = num ulng,
         latitudeDelta = 0.01, longitudeDelta = 0.01\<rparr>)"
  by (auto simp: calculateRegion_def)

theorem calculateRegion_defaults_witness:
  "calculateRegion None None None None =
     \<lparr>region.latitude = 37.78825, region.longitude = -122.4324,
      latitudeDelta = 0.01, longitudeDelta = 0.01\<rparr> \<and>
   calculateRegion (Some 37.7749) (Some (-122.4194)) None None =
     \<lparr>region.latitude = 37.7749, region.longitude = -122.4194,
      latitudeDelta = 0.01, longitudeDelta = 0.01\<rparr>"
  using calculateRegion_defaults [of None None None None]
    calculateRegion_defaults [of "Some 37.7749" "Some (-122.4194)" None None]
  by simp


section \<open>The great-circle distance\<close>

lemma diff_times_sum:
  fixes a b :: real
  shows "(a - b) * (a + b) = a\<^sup>2 - b\<^sup>2"
  by (simp add: power2_eq_square algebra_simps)

lemma cos_product:
  fixes w u :: real
  shows "cos (w + u) * cos (w - u) = (cos w)\<^sup>2 - (sin u)\<^sup>2"
proof -
  have "cos (w + u) * cos (w - u) =
          (cos w * cos u - sin w * sin u) * (cos w * cos u + sin w * sin u)"
    by (simp only: cos_add cos_diff)
  also have "\<dots> = (cos w * cos u)\<^sup>2 - (sin w * sin u)\<^sup>2"
    by (rule diff_times_sum)
  also have "\<dots> = (cos w)\<^sup>2 * (1 - (sin u)\<^sup>2) - (1 - (cos w)\<^sup>2) * (sin u)\<^sup>2"
    by (simp only: power_mult_distrib cos_squared_eq [of u] sin_squared_eq [of w])
  also have "\<dots> = (cos w)\<^sup>2 - (sin u)\<^sup>2"
    by (simp add: algebra_simps)
  finally show ?thesis .
qed

text \<open>The haversine term, rearranged into a sum of two non-negative parts.\<close>

lemma haversine_a_split:
  "haversine_a lat1 lon1 lat2 lon2 =
     (sin ((lat2 - lat1) * (pi / 180) / 2))\<^sup>2 * (1 - (sin ((lon2 - lon1) * (pi / 180) / 2))\<^sup>2) +
     (cos ((lat2 + lat1) * (pi / 180) / 2))\<^sup>2 * (sin ((lon2 - lon1) * (pi / 180) / 2))\<^sup>2"
proof -
  define w where "w = (lat2 + lat1) * (pi / 180) / 2"
  define u where "u = (lat2 - lat1) * (pi / 180) / 2"
  define s where "s = (sin ((lon2 - lon1) * (pi / 180) / 2))\<^sup>2"
  have l1: "lat1 * (pi / 180) = w - u" and l2: "lat2 * (pi / 180) = w + u"
    by (simp_all add: w_def u_def field_simps)
  have "haversine_a lat1 lon1 lat2 lon2 = (sin u)\<^sup>2 + (cos (w + u) * cos (w - u)) * s"
    unfolding haversine_a_def l1 l2
    by (simp add: u_def s_def power2_eq_square algebra_simps)
  also have "\<dots> = (sin u)\<^sup>2 + ((cos w)\<^sup>2 - (sin u)\<^sup>2) * s"
    by (simp only: cos_product)
  also have "\<dots> = (sin u)\<^sup>2 * (1 - s) + (cos w)\<^sup>2 * s"
    by (simp add: algebra_simps)
  finally show ?thesis
    by (simp add: w_def u_def s_def)
qed

lemma haversine_a_range: "0 \<le> haversine_a lat1 lon1 lat2 lon2 \<and> haversine_a lat1 lon1 lat2 lon2 \<le> 1"
proof -
  define w where "w = (lat2 + lat1) * (pi / 180) / 2"
  define u where "u = (lat2 - lat1) * (pi / 180) / 2"
  define s where "s = (sin ((lon2 - lon1) * (pi / 180) / 2))\<^sup>2"
  have a: "haversine_a lat1 lon1 lat2 lon2 = (sin u)\<^sup>2 * (1 - s) + (cos w)\<^sup>2 * s"
    by (simp add: haversine_a_split w_def u_def s_def)
  have s: "0 \<le> s" "s \<le> 1"
    by (simp_all add: s_def abs_square_le_1)
  have su: "0 \<le> (sin u)\<^sup>2" "(sin u)\<^sup>2 \<le> 1" and cw: "0 \<le> (cos w)\<^sup>2" "(cos w)\<^sup>2 \<le> 1"
    by (simp_all add: abs_square_le_1)
  have lo: "0 \<le> (sin u)\<^sup>2 * (1 - s) + (cos w)\<^sup>2 * s"
    using s su cw by simp
  have "(sin u)\<^sup>2 * (1 - s) \<le> 1 * (1 - s)"
    using s su by (intro mult_right_mono) simp_all
  moreover have "(cos w)\<^sup>2 * s \<le> 1 * s"
    using s cw by (intro mult_right_mono) simp_all
  ultimately have hi: "(sin u)\<^sup>2 * (1 - s) + (cos w)\<^sup>2 * s \<le> 1"
    by simp
  show ?thesis
    using lo hi by (simp add: a)
qed

lemma calculateDistance_eq:
  "calculateDistance lat1 lon1 lat2 lon2 =
     6371 * (2 * atan2 (sqrt (haversine_a lat1 lon1 lat2 lon2))
                       (sqrt (1 - haversine_a lat1 lon1 lat2 lon2)))"
  by (simp add: calculateDistance_def haversine_a_def Let_def)


section \<open>Evaluating toFixed\<close>

lemma toFixed_7_5: "toFixed ts 2 (Num (15 / 2)) = ''7.50''"
  by code_simp

lemma toFixed_NaN: "toFixed ts f NaN = ''NaN''"
  by (simp add: toFixed_def)


section \<open>The task of one marker\<close>

lemma no_features_first_time_opt: "no_features dlng \<Longrightarrow> first_time_opt dlng = None"
  by (auto simp: no_features_def first_time_opt_def split: routing_data.splits option.splits list.splits)

lemma first_time_opt_eq:
  "first_time_opt dlng = (case first_time dlng of Inl e \<Rightarrow> None | Inr t \<Rightarrow> t)"
  by (simp add: first_time_opt_def first_time_def
      split: routing_data.splits option.splits list.splits feature.splits properties.splits)

lemma estimatedMarker_eq:
  "estimatedMarker E marker ulat ulng dlat dlng =
     annotated E marker (Num ((calculateDistance ulat ulng dlat dlng / 40) * 60))"
  by (simp add: estimatedMarker_def annotated_def Let_def)

text \<open>The ways through the try block, one lemma each.\<close>

lemma try_legA_raises:
  assumes "fetch_json E i 0 (Routing (latitude marker) (longitude marker) ulat ulng key) = Inl e"
  shows "driverTask_try E key i marker ulat ulng dlat dlng =
           ([Routing (latitude marker) (longitude marker) ulat ulng key], Inl e)"
  using assms by (simp add: driverTask_try_def Let_def)

lemma try_fallback_legB_raises:
  assumes "fetch_json E i 0 (Routing (latitude marker) (longitude marker) ulat ulng key) = Inr dA"
    and "no_features dA"
    and "fetch_json E i 1 (Routing ulat ulng dlat dlng key) = Inl e"
  shows "driverTask_try E key i marker ulat ulng dlat dlng =
           ([Routing (latitude marker) (longitude marker) ulat ulng key, Routing ulat ulng dlat dlng key], Inl e)"
  using assms by (simp add: driverTask_try_def Let_def)

lemma try_fallback:
  assumes "fetch_json E i 0 (Routing (latitude marker) (longitude marker) ulat ulng key) = Inr dA"
    and "no_features dA"
    and "fetch_json E i 1 (Routing ulat ulng dlat dlng key) = Inr dB"
  shows "driverTask_try E key i marker ulat ulng dlat dlng =
           ([Routing (latitude marker) (longitude marker) ulat ulng key, Routing ulat ulng dlat dlng key],
            Inr (annotated E marker
                   (Num (((calculateDistance (latitude marker) (longitude marker) ulat ulng / 40) * 3600 +
                          or_else (first_time_opt dB)
                            ((calculateDistance ulat ulng dlat dlng / 40) * 3600)) / 60))))"
  using assms by (simp add: driverTask_try_def Let_def annotated_def)

lemma try_legA_malformed:
  assumes "fetch_json E i 0 (Routing (latitude marker) (longitude marker) ulat ulng key) = Inr dA"
    and "\<not> no_features dA"
    and "first_time dA = Inl e"
  shows "driverTask_try E key i marker ulat ulng dlat dlng =
           ([Routing (latitude marker) (longitude marker) ulat ulng key], Inl e)"
  using assms by (simp add: driverTask_try_def Let_def)

lemma try_routed_legB_raises:
  assumes "fetch_json E i 0 (Routing (latitude marker) (longitude marker) ulat ulng key) = Inr dA"
    and "\<not> no_features dA"
    and "first_time dA = Inr tA"
    and "fetch_json E i 1 (Routing ulat ulng dlat dlng key) = Inl e"
  shows "driverTask_try E key i marker ulat ulng dlat dlng =
           ([Routing (latitude marker) (longitude marker) ulat ulng key, Routing ulat ulng dlat dlng key], Inl e)"
  using assms by (simp add: driverTask_try_def Let_def)

lemma try_routed_fallback:
  assumes "fetch_json E i 0 (Routing (latitude marker) (longitude marker) ulat ulng key) = Inr dA"
    and "\<not> no_features dA"
    and "first_time dA = Inr tA"
    and "fetch_json E i 1 (Routing ulat ulng dlat dlng key) = Inr dB"
    and "no_features dB"
  shows "driverTask_try E key i marker ulat ulng dlat dlng =
           ([Routing (latitude marker) (longitude marker) ulat ulng key, Routing ulat ulng dlat dlng key],
            Inr (annotated E marker
                   ((to_number tA + Num ((calculateDistance ulat ulng dlat dlng / 40) * 3600)) / Num 60)))"
  using assms by (simp add: driverTask_try_def Let_def annotated_def)

lemma try_routed_legB_malformed:
  assumes "fetch_json E i 0 (Routing (latitude marker) (longitude marker) ulat ulng key) = Inr dA"
    and "\<not> no_features dA"
    and "first_time dA = Inr tA"
    and "fetch_json E i 1 (Routing ulat ulng dlat dlng key) = Inr dB"
    and "\<not> no_features dB"
    and "first_time dB = Inl e"
  shows "driverTask_try E key i marker ulat ulng dlat dlng =
           ([Routing (latitude marker) (longitude marker) ulat ulng key, Routing ulat ulng dlat dlng key], Inl e)"
  using assms by (simp add: driverTask_try_def Let_def)

lemma try_routed:
  assumes "fetch_json E i 0 (Routing (latitude marker) (longitude marker) ulat ulng key) = Inr dA"
    and "\<not> no_features dA"
    and "first_time dA = Inr tA"
    and "fetch_json E i 1 (Routing ulat ulng dlat dlng key) = Inr dB"
    and "\<not> no_features dB"
    and "first_time dB = Inr tB"
  shows "driverTask_try E key i marker ulat ulng dlat dlng =
           ([Routing (latitude marker) (longitude marker) ulat ulng key, Routing ulat ulng dlat dlng key],
            Inr (annotated E marker ((to_number tA + to_number tB) / Num 60)))"
  using assms by (simp add: driverTask_try_def Let_def annotated_def)

text \<open>The try block ends in one of four ways.\<close>

lemma driverTask_try_outcome:
  fixes E key i marker ulat ulng dlat dlng
  defines "A \<equiv> Routing (latitude marker) (longitude marker) ulat ulng key"
    and "B \<equiv> Routing ulat ulng dlat dlng key"
  shows
  "(\<exists>e. snd (driverTask_try E key i marker ulat ulng dlat dlng) = Inl e) \<or>
   (\<exists>dA dB. fetch_json E i 0 A = Inr dA \<and> no_features dA \<and> fetch_json E i 1 B = Inr dB \<and>
      snd (driverTask_try E key i marker ulat ulng dlat dlng) =
        Inr (annotated E marker
               (Num (((calculateDistance (latitude marker) (longitude marker) ulat ulng / 40) * 3600 +
                      or_else (first_time_opt dB) ((calculateDistance ulat ulng dlat dlng / 40) * 3600)) / 60)))) \<or>
   (\<exists>dA tA dB. fetch_json E i 0 A = Inr dA \<and> \<not> no_features dA \<and> first_time dA = Inr tA \<and>
      fetch_json E i 1 B = Inr dB \<and> no_features dB \<and>
      snd (driverTask_try E key i marker ulat ulng dlat dlng) =
        Inr (annotated E marker
               ((to_number tA + Num ((calculateDistance ulat ulng dlat dlng / 40) * 3600)) / Num 60))) \<or>
   (\<exists>dA tA dB tB. fetch_json E i 0 A = Inr dA \<and> \<not> no_features dA \<and> first_time dA = Inr tA \<and>
      fetch_json E i 1 B = Inr dB \<and> \<not> no_features dB \<and> first_time dB = Inr tB \<and>
      snd (driverTask_try E key i marker ulat ulng dlat dlng) =
        Inr (annotated E marker ((to_number tA + to_number tB) / Num 60)))"
proof (cases "fetch_json E i 0 A")
  case (Inl e)
  then show ?thesis
    using try_legA_raises [of E i marker ulat ulng key e dlat dlng] by (simp add: A_def)
next
  case dA: (Inr dA)
  show ?thesis
  proof (cases "fetch_json E i 1 B")
    case (Inl e)
    show ?thesis
    proof (cases "no_features dA")
      case True
      then show ?thesis
        using try_fallback_legB_raises [of E i marker ulat ulng key dA dlat dlng e] dA Inl
        by (simp add: A_def B_def)
    next
      case False
      then show ?thesis
        using try_legA_malformed [of E i marker ulat ulng key dA _ dlat dlng]
          try_routed_legB_raises [of E i marker ulat ulng key dA _ dlat dlng e] dA Inl
        by (cases "first_time dA") (simp_all add: A_def B_def)
    qed
  next
    case dB: (Inr dB)
    show ?thesis
    proof (cases "no_features dA")
      case True
      then show ?thesis
        using try_fallback [of E i marker ulat ulng key dA dlat dlng dB] dA dB
        by (simp add: A_def B_def)
    next
      case nA: False
      show ?thesis
      proof (cases "first_time dA")
        case (Inl e)
        then show ?thesis
          using try_legA_malformed [of E i marker ulat ulng key dA e dlat dlng] dA nA
          by (simp add: A_def)
      next
        case tA: (Inr tA)
        show ?thesis
        proof (cases "no_features dB")
          case True
          then show ?thesis
            using try_routed_fallback [of E i marker ulat ulng key dA tA dlat dlng dB] dA nA tA dB
            by (simp add: A_def B_def)
        next
          case nB: False
          show ?thesis
          proof (cases "first_time dB")
            case (Inl e)
            then show ?thesis
              using try_routed_legB_malformed [of E i marker ulat ulng key dA tA dlat dlng dB e] dA nA tA dB nB
              by (simp add: A_def B_def)
          next
            case (Inr tB)
            then show ?thesis
              using try_routed [of E i marker ulat ulng key dA tA dlat dlng dB tB] dA nA tA dB nB
              by (simp add: A_def B_def)
          qed
        qed
      qed
    qed
  qed
qed

lemma driverTask_cases:
  "snd (driverTask E key i marker ulat ulng dlat dlng) =
     (case snd (driverTask_try E key i marker ulat ulng dlat dlng) of
        Inl e \<Rightarrow> Inr (estimatedMarker E marker ulat ulng dlat dlng)
      | Inr m \<Rightarrow> Inr m)"
  by (simp add: driverTask_def split: prod.splits sum.splits)

lemma annotated_Num:
  "annotated E marker (Num t) =
     marker\<lparr>time := Some (Num t), price := Some (toFixed (numberToString E) 2 (Num (t * 0.5)))\<rparr>"
  by (simp add: annotated_def)

lemma driverTask_fulfils: "\<exists>m. snd (driverTask E key i marker ulat ulng dlat dlng) = Inr m"
  by (simp add: driverTask_cases split: sum.splits)

lemma Promise_all_fulfilled:
  "\<forall>p\<in>set ps. \<exists>v. p = Inr v \<Longrightarrow> Promise_all ps = Inr (map projr ps)"
  by (induction ps rule: Promise_all.induct) auto

text \<open>When the guards pass, the result is the list of the tasks' markers.\<close>

lemma calculateDriverTimes_accepted:
  assumes "truthy ulat" "truthy ulng" "truthy dlat" "truthy dlng" "key_set (geoapifyAPI E)"
  shows "calculateDriverTimes E markers ulat ulng dlat dlng =
           (concat (map (\<lambda>(i, marker). fst (driverTask E (key_text (geoapifyAPI E)) i marker
                                               (num ulat) (num ulng) (num dlat) (num dlng)))
                     (List.enumerate 0 markers)),
            Some (map (\<lambda>(i, marker). projr (snd (driverTask E (key_text (geoapifyAPI E)) i marker
                                                    (num ulat) (num ulng) (num dlat) (num dlng))))
                    (List.enumerate 0 markers)))"
proof -
  let ?task = "\<lambda>(i, marker). driverTask E (key_text (geoapifyAPI E)) i marker
                                (num ulat) (num ulng) (num dlat) (num dlng)"
  have "\<forall>p\<in>set (map snd (map ?task (List.enumerate 0 markers))). \<exists>v. p = Inr v"
    using driverTask_fulfils by (auto simp: case_prod_unfold)
  then have "Promise_all (map snd (map ?task (List.enumerate 0 markers))) =
               Inr (map projr (map snd (map ?task (List.enumerate 0 markers))))"
    by (rule Promise_all_fulfilled)
  then show ?thesis
    using assms
    by (simp add: calculateDriverTimes_def Let_def case_prod_unfold comp_def)
qed

lemma results_nth:
  assumes "j < length markers"
  shows "map (\<lambda>(i, marker). g i marker) (List.enumerate 0 markers) ! j = g j (markers ! j)"
  using assms by (simp add: nth_enumerate_eq)

lemma results_map:
  "map (\<lambda>(i, marker). g marker) (List.enumerate 0 markers) = map g markers"
proof -
  have "map (\<lambda>(i, marker). g marker) (List.enumerate 0 markers) =
          map (g \<circ> snd) (List.enumerate 0 markers)"
    by (simp add: case_prod_unfold comp_def)
  also have "\<dots> = map g (map snd (List.enumerate 0 markers))"
    by (simp only: map_map)
  also have "\<dots> = map g markers"
    by (simp only: map_snd_enumerate)
  finally show ?thesis .
qed


section \<open>The annotated list\<close>

text \<open>
  Whatever the routing service answers, the task of a marker returns that marker with
  a time and the price \<^verbatim>\<open>(time * 0.5).toFixed(2)\<close> of that time; the time is a number
  or \<^verbatim>\<open>NaN\<close>.
\<close>

lemma driverTask_annotates:
  "\<exists>t. snd (driverTask E key i marker ulat ulng dlat dlng) = Inr (annotated E marker t)"
  using driverTask_try_outcome [of E key i marker ulat ulng dlat dlng]
  by (auto simp: driverTask_cases estimatedMarker_eq)

text \<open>
  When the four coordinates are present and the key is set, the result has the length
  of the markers, the same drivers in the same order, and every entry is its marker
  with a time and the price of that time.
\<close>

lemma calculateDriverTimes_shape:
  assumes "truthy ulat" "truthy ulng" "truthy dlat" "truthy dlng" "key_set (geoapifyAPI E)"
  shows "\<exists>results. snd (calculateDriverTimes E markers ulat ulng dlat dlng) = Some results \<and>
           length results = length markers \<and>
           map driver_id results = map driver_id markers \<and>
           (\<forall>j<length markers. \<exists>t.
              results ! j =
                (markers ! j)\<lparr>time := Some t,
                               price := Some (toFixed (numberToString E) 2 (t * Num 0.5))\<rparr>)"
proof -
  define g where "g = (\<lambda>i marker. projr (snd (driverTask E (key_text (geoapifyAPI E)) i marker
                                                (num ulat) (num ulng) (num dlat) (num dlng))))"
  define results where "results = map (\<lambda>(i, marker). g i marker) (List.enumerate 0 markers)"
  have res: "snd (calculateDriverTimes E markers ulat ulng dlat dlng) = Some results"
    using assms by (simp add: calculateDriverTimes_accepted results_def g_def)
  have len: "length results = length markers"
    by (simp add: results_def)
  have each: "\<exists>t. results ! j = annotated E (markers ! j) t" if j: "j < length markers" for j
  proof -
    obtain t where
      "snd (driverTask E (key_text (geoapifyAPI E)) j (markers ! j)
              (num ulat) (num ulng) (num dlat) (num dlng)) = Inr (annotated E (markers ! j) t)"
      using driverTask_annotates by blast
    moreover have "results ! j = g j (markers ! j)"
      unfolding results_def using j by (rule results_nth)
    ultimately show ?thesis
      by (auto simp: g_def)
  qed
  have ids: "map driver_id results = map driver_id markers"
  proof (rule nth_equalityI)
    show "length (map driver_id results) = length (map driver_id markers)"
      by (simp add: len)
    fix j assume "j < length (map driver_id results)"
    then have j: "j < length markers" by (simp add: len)
    then obtain t where "results ! j = annotated E (markers ! j) t"
      using each by blast
    then show "map driver_id results ! j = map driver_id markers ! j"
      using j by (simp add: len annotated_def)
  qed
  show ?thesis
    using res len ids each by (auto simp: annotated_def)
qed

text \<open>
  Claim C1 says that every entry of the result carries a non-negative time and a price
  with two decimals, on every path. The routed path does not keep it: line 139 reads
  \<^verbatim>\<open>features[0].properties.time\<close> without a check, so a response whose first feature
  has no \<^verbatim>\<open>time\<close> makes the total \<^verbatim>\<open>NaN\<close> and the price the string \<^verbatim>\<open>NaN\<close> (first
  conjunct). The sibling branch of lines 129-130 reads the same property of the same
  response with \<^verbatim>\<open>?.\<close> and \<^verbatim>\<open>||\<close> and substitutes the estimate (second conjunct).
\<close>

theorem calculateDriverTimes_no_time:
  "snd (calculateDriverTimes (sample_env no_time_net) [sample_marker]
          (Some 37.7749) (Some (-122.4194)) (Some 37.3382) (Some (-121.8863))) =
     Some [sample_marker\<lparr>time := Some NaN, price := Some ''NaN''\<rparr>] \<and>
   snd (driverTask (sample_env no_time_fallback_net) ''key'' 0 sample_marker
          37.7749 (-122.4194) 37.3382 (-121.8863)) =
     Inr (sample_marker
            \<lparr>time := Some (Num (((calculateDistance 37.78 (-122.42) 37.7749 (-122.4194) / 40) * 3600 +
                                   (calculateDistance 37.7749 (-122.4194) 37.3382 (-121.8863) / 40)
                                     * 3600) / 60)),
             price := Some (toFixed (\<lambda>x. ''1e+21'') 2
                              (Num (((calculateDistance 37.78 (-122.42) 37.7749 (-122.4194) / 40)
                                       * 3600 +
                                     (calculateDistance 37.7749 (-122.4194) 37.3382 (-121.8863) / 40)
                                       * 3600) / 60 * 0.5)))\<rparr>)"
proof
  show "snd (calculateDriverTimes (sample_env no_time_net) [sample_marker]
          (Some 37.7749) (Some (-122.4194)) (Some 37.3382) (Some (-121.8863))) =
     Some [sample_marker\<lparr>time := Some NaN, price := Some ''NaN''\<rparr>]"
    by (simp add: calculateDriverTimes_def driverTask_def driverTask_try_def Let_def
        sample_env_def no_time_net_def no_time_def routed_def no_features_def first_time_def
        to_number_def key_set_def key_text_def enumerate_eq_zip toFixed_NaN)
  have "driverTask_try (sample_env no_time_fallback_net) ''key'' 0 sample_marker
          37.7749 (-122.4194) 37.3382 (-121.8863) =
        ([Routing (latitude sample_marker) (longitude sample_marker) 37.7749 (-122.4194) ''key'',
          Routing 37.7749 (-122.4194) 37.3382 (-121.8863) ''key''],
         Inr (annotated (sample_env no_time_fallback_net) sample_marker
                (Num (((calculateDistance (latitude sample_marker) (longitude sample_marker)
                          37.7749 (-122.4194) / 40) * 3600 +
                       or_else (first_time_opt (Routing_data (Some [Feature (Some (Properties None))])))
                         ((calculateDistance 37.7749 (-122.4194) 37.3382 (-121.8863) / 40) * 3600))
                      / 60))))"
    by (rule try_fallback [where dA = "Routing_data (Some [])"])
       (simp_all add: sample_env_def no_time_fallback_net_def empty_result_def no_time_def
          no_features_def)
  then show "snd (driverTask (sample_env no_time_fallback_net) ''key'' 0 sample_marker
          37.7749 (-122.4194) 37.3382 (-121.8863)) =
     Inr (sample_marker
            \<lparr>time := Some (Num (((calculateDistance 37.78 (-122.42) 37.7749 (-122.4194) / 40) * 3600 +
                                   (calculateDistance 37.7749 (-122.4194) 37.3382 (-121.8863) / 40)
                                     * 3600) / 60)),
             price := Some (toFixed (\<lambda>x. ''1e+21'') 2
                              (Num (((calculateDistance 37.78 (-122.42) 37.7749 (-122.4194) / 40)
                                       * 3600 +
                                     (calculateDistance 37.7749 (-122.4194) 37.3382 (-121.8863) / 40)
                                       * 3600) / 60 * 0.5)))\<rparr>)"
    by (simp add: driverTask_cases annotated_Num first_time_opt_def or_else_def sample_env_def
        sample_marker_def)
qed

theorem calculateDriverTimes_no_time_witness:
  "map time (the (snd (calculateDriverTimes (sample_env no_time_net) [sample_marker]
                         (Some 37.7749) (Some (-122.4194)) (Some 37.3382) (Some (-121.8863))))) =
     [Some NaN] \<and>
   map price (the (snd (calculateDriverTimes (sample_env no_time_net) [sample_marker]
                          (Some 37.7749) (Some (-122.4194)) (Some 37.3382) (Some (-121.8863))))) =
     [Some ''NaN'']"
  using calculateDriverTimes_no_time by simp

text \<open>
  The scenario of the specification: 300 seconds to the rider and 600 seconds to the
  destination make 15 minutes and the price 7.50.
\<close>

lemma scenario_routed:
  "snd (calculateDriverTimes (sample_env scenario_net) [sample_marker]
          (Some 37.7749) (Some (-122.4194)) (Some 37.3382) (Some (-121.8863))) =
     Some [sample_marker\<lparr>time := Some (Num 15), price := Some ''7.50''\<rparr>]"
  by (simp add: calculateDriverTimes_def driverTask_def driverTask_try_def Let_def
      sample_env_def scenario_net_def routed_def no_features_def first_time_def
      to_number_def key_set_def key_text_def enumerate_eq_zip toFixed_7_5)

text \<open>
  Claim C2: the task of one marker never rejects, and whenever a call of the routing
  service raises (network or decoding), or anything else raises in the \<^verbatim>\<open>try\<close> block,
  the marker is returned with the time \<open>(distance(rider, destination) / 40) * 60\<close>
  minutes and its price: the position of the driver plays no part.
\<close>

theorem driverTask_never_raises:
  "(\<exists>m. snd (driverTask E key i marker ulat ulng dlat dlng) = Inr m) \<and>
   ((\<exists>e. fetch_json E i 0 (Routing (latitude marker) (longitude marker) ulat ulng key) = Inl e) \<or>
    (\<exists>e. fetch_json E i 1 (Routing ulat ulng dlat dlng key) = Inl e) \<or>
    (\<exists>e. snd (driverTask_try E key i marker ulat ulng dlat dlng) = Inl e) \<longrightarrow>
    snd (driverTask E key i marker ulat ulng dlat dlng) =
      Inr (marker\<lparr>time := Some (Num ((calculateDistance ulat ulng dlat dlng / 40) * 60)),
                  price := Some (toFixed (numberToString E) 2
                                   (Num ((calculateDistance ulat ulng dlat dlng / 40) * 60 * 0.5)))\<rparr>))"
proof (intro conjI impI)
  show "\<exists>m. snd (driverTask E key i marker ulat ulng dlat dlng) = Inr m"
    by (rule driverTask_fulfils)
next
  assume raised:
    "(\<exists>e. fetch_json E i 0 (Routing (latitude marker) (longitude marker) ulat ulng key) = Inl e) \<or>
     (\<exists>e. fetch_json E i 1 (Routing ulat ulng dlat dlng key) = Inl e) \<or>
     (\<exists>e. snd (driverTask_try E key i marker ulat ulng dlat dlng) = Inl e)"
  have "\<exists>e. snd (driverTask_try E key i marker ulat ulng dlat dlng) = Inl e"
    using raised driverTask_try_outcome [of E key i marker ulat ulng dlat dlng] by auto
  then show "snd (driverTask E key i marker ulat ulng dlat dlng) =
      Inr (marker\<lparr>time := Some (Num ((calculateDistance ulat ulng dlat dlng / 40) * 60)),
                  price := Some (toFixed (numberToString E) 2
                                   (Num ((calculateDistance ulat ulng dlat dlng / 40) * 60 * 0.5)))\<rparr>)"
    by (auto simp: driverTask_cases estimatedMarker_eq annotated_Num)
qed

theorem driverTask_never_raises_witness:
  "fetch_json (sample_env failing_net) 0 0
     (Routing (latitude sample_marker) (longitude sample_marker) 37.7749 (-122.4194) ''key'') =
     Inl NetworkError \<and>
   snd (driverTask (sample_env failing_net) ''key'' 0 sample_marker
          37.7749 (-122.4194) 37.3382 (-121.8863)) =
     Inr (sample_marker
            \<lparr>time := Some (Num ((calculateDistance 37.7749 (-122.4194) 37.3382 (-121.8863) / 40) * 60)),
             price := Some (toFixed (numberToString (sample_env failing_net)) 2
                              (Num ((calculateDistance 37.7749 (-122.4194) 37.3382 (-121.8863) / 40)
                                      * 60 * 0.5)))\<rparr>)"
proof -
  have raised: "fetch_json (sample_env failing_net) 0 0
     (Routing (latitude sample_marker) (longitude sample_marker) 37.7749 (-122.4194) ''key'') =
     Inl NetworkError"
    by (simp add: sample_env_def failing_net_def)
  then show ?thesis
    using driverTask_never_raises [of "sample_env failing_net" "''key''" 0 sample_marker
        "37.7749" "-122.4194" "37.3382" "-121.8863"]
    by blast
qed

text \<open>
  Claim C3: when every call of the routing service returns a result with no features,
  every marker gets the time
  \<open>((distance(driver, rider) + distance(rider, destination)) / 40) * 60\<close> minutes and the
  price of that time.
\<close>

theorem calculateDriverTimes_degrades:
  assumes "truthy ulat" "truthy ulng" "truthy dlat" "truthy dlng" "key_set (geoapifyAPI E)"
    and empty: "\<forall>i k r. \<exists>dt. fetch_json E i k r = Inr dt \<and> no_features dt"
  shows "snd (calculateDriverTimes E markers ulat ulng dlat dlng) =
           Some (map (\<lambda>marker.
                        marker\<lparr>time := Some (Num (((calculateDistance (latitude marker) (longitude marker)
                                                        (num ulat) (num ulng) +
                                                      calculateDistance (num ulat) (num ulng) (num dlat) (num dlng))
                                                     / 40) * 60)),
                               price := Some (toFixed (numberToString E) 2
                                                (Num (((calculateDistance (latitude marker)
                                                          (longitude marker) (num ulat) (num ulng) +
                                                        calculateDistance (num ulat) (num ulng) (num dlat) (num dlng))
                                                       / 40) * 60 * 0.5)))\<rparr>)
                   markers)"
proof -
  let ?key = "key_text (geoapifyAPI E)"
  let ?f = "\<lambda>marker. annotated E marker
              (Num (((calculateDistance (latitude marker) (longitude marker) (num ulat) (num ulng) +
                      calculateDistance (num ulat) (num ulng) (num dlat) (num dlng)) / 40) * 60))"
  have task: "projr (snd (driverTask E ?key i marker (num ulat) (num ulng) (num dlat) (num dlng))) = ?f marker"
    for i marker
  proof -
    obtain dA where dA: "fetch_json E i 0
        (Routing (latitude marker) (longitude marker) (num ulat) (num ulng) ?key) = Inr dA" "no_features dA"
      using empty by blast
    obtain dB where dB: "fetch_json E i 1 (Routing (num ulat) (num ulng) (num dlat) (num dlng) ?key) = Inr dB"
      "no_features dB"
      using empty by blast
    have "or_else (first_time_opt dB) x = x" for x
      using dB(2) by (simp add: no_features_first_time_opt or_else_def)
    then have "snd (driverTask_try E ?key i marker (num ulat) (num ulng) (num dlat) (num dlng)) =
        Inr (annotated E marker
               (Num (((calculateDistance (latitude marker) (longitude marker) (num ulat) (num ulng) / 40) * 3600 +
                      (calculateDistance (num ulat) (num ulng) (num dlat) (num dlng) / 40) * 3600) / 60)))"
      using try_fallback [OF dA dB(1)] by simp
    moreover have
      "((calculateDistance (latitude marker) (longitude marker) (num ulat) (num ulng) / 40) * 3600 +
        (calculateDistance (num ulat) (num ulng) (num dlat) (num dlng) / 40) * 3600) / 60 =
       ((calculateDistance (latitude marker) (longitude marker) (num ulat) (num ulng) +
         calculateDistance (num ulat) (num ulng) (num dlat) (num dlng)) / 40) * 60"
      by (simp add: field_simps)
    ultimately show ?thesis
      by (simp only: driverTask_cases sum.case sum.sel)
  qed
  have "snd (calculateDriverTimes E markers ulat ulng dlat dlng) =
          Some (map (\<lambda>(i, marker). ?f marker) (List.enumerate 0 markers))"
    using assms(1-5) by (simp add: calculateDriverTimes_accepted task)
  also have "\<dots> = Some (map ?f markers)"
    by (simp only: results_map)
  finally show ?thesis
    by (simp add: annotated_Num)
qed

theorem calculateDriverTimes_degrades_witness:
  "snd (calculateDriverTimes (sample_env empty_net) [sample_marker]
          (Some 37.7749) (Some (-122.4194)) (Some 37.3382) (Some (-121.8863))) =
     Some [sample_marker
             \<lparr>time := Some (Num (((calculateDistance 37.78 (-122.42) 37.7749 (-122.4194) +
                                    calculateDistance 37.7749 (-122.4194) 37.3382 (-121.8863))
                                   / 40) * 60)),
              price := Some (toFixed (\<lambda>x. ''1e+21'') 2
                               (Num (((calculateDistance 37.78 (-122.42) 37.7749 (-122.4194) +
                                       calculateDistance 37.7749 (-122.4194) 37.3382 (-121.8863))
                                      / 40) * 60 * 0.5)))\<rparr>]"
proof -
  have "\<forall>i k r. \<exists>dt. fetch_json (sample_env empty_net) i k r = Inr dt \<and> no_features dt"
    by (simp add: sample_env_def empty_net_def empty_result_def no_features_def)
  then show ?thesis
    using calculateDriverTimes_degrades [of "Some 37.7749" "Some (-122.4194)" "Some 37.3382"
        "Some (-121.8863)" "sample_env empty_net" "[sample_marker]"]
    by (simp add: key_set_def sample_env_def sample_marker_def)
qed

text \<open>
  Claim C4: when a rider coordinate, a destination coordinate or the key is missing,
  \<open>calculateDriverTimes\<close> returns no result and issues no routing request. (The markers
  are values here; the source builds new objects and never writes to its argument.)
\<close>

theorem calculateDriverTimes_early_exit:
  "\<not> truthy ulat \<or> \<not> truthy ulng \<or> \<not> truthy dlat \<or> \<not> truthy dlng \<or> \<not> key_set (geoapifyAPI E) \<longrightarrow>
   calculateDriverTimes E markers ulat ulng dlat dlng = ([], None)"
  by (auto simp: calculateDriverTimes_def)

theorem calculateDriverTimes_early_exit_witness:
  "calculateDriverTimes (sample_env scenario_net) [sample_marker, second_marker]
     None None (Some 37.3382) (Some (-121.8863)) = ([], None) \<and>
   calculateDriverTimes (sample_env scenario_net) [sample_marker, second_marker]
     (Some 37.7749) (Some (-122.4194)) None None = ([], None) \<and>
   calculateDriverTimes ((sample_env scenario_net)\<lparr>geoapifyAPI := None\<rparr>)
     [sample_marker, second_marker]
     (Some 37.7749) (Some (-122.4194)) (Some 37.3382) (Some (-121.8863)) = ([], None)"
  using calculateDriverTimes_early_exit [of None None "Some 37.3382" "Some (-121.8863)"
      "sample_env scenario_net" "[sample_marker, second_marker]"]
    calculateDriverTimes_early_exit [of "Some 37.7749" "Some (-122.4194)" None None
      "sample_env scenario_net" "[sample_marker, second_marker]"]
    calculateDriverTimes_early_exit [of "Some 37.7749" "Some (-122.4194)" "Some 37.3382"
      "Some (-121.8863)" "(sample_env scenario_net)\<lparr>geoapifyAPI := None\<rparr>"
      "[sample_marker, second_marker]"]
  by (simp add: key_set_def)


section \<open>Bounds on the trigonometric functions\<close>

text \<open>
  Linear lower bounds of the sine, the cosine and the arc tangent, enough to tell a
  computed value from zero.
\<close>

lemma sin_lower:
  fixes x :: real
  assumes "0 \<le> x" and "x \<le> 21 / 10"
  shows "x / 4 \<le> sin x"
proof -
  have "\<bar>sin x - (\<Sum>m<3. sin_coeff m * x ^ m)\<bar> \<le> inverse (fact 3) * \<bar>x\<bar> ^ 3"
    by (rule Maclaurin_sin_bound)
  moreover have "(\<Sum>m<3. sin_coeff m * x ^ m) = x"
    by (simp add: sin_coeff_def eval_nat_numeral)
  moreover have "inverse (fact 3) * \<bar>x\<bar> ^ 3 = x * (x * x) / 6"
    using assms(1) by (simp add: eval_nat_numeral)
  ultimately have 1: "x - x * (x * x) / 6 \<le> sin x"
    by (simp only:; argo)
  have "x * x \<le> (21 / 10) * (21 / 10)"
    using assms by (intro mult_mono) simp_all
  then have "x * (x * x) \<le> x * ((21 / 10) * (21 / 10))"
    using assms(1) by (intro mult_left_mono)
  then show ?thesis
    using 1 assms(1) by argo
qed

lemma sin_lower_pi:
  assumes "0 \<le> x" and "x \<le> pi"
  shows "min x (pi - x) / 4 \<le> sin x"
proof (cases "x \<le> 21 / 10")
  case True
  then have "x / 4 \<le> sin x"
    using assms(1) by (intro sin_lower)
  then show ?thesis
    by (simp add: min_def; argo)
next
  case False
  then have "pi - x \<le> 21 / 10"
    using pi_less_4 by argo
  then have "(pi - x) / 4 \<le> sin (pi - x)"
    using assms(2) by (intro sin_lower) simp_all
  then show ?thesis
    by (simp add: min_def; argo)
qed

lemma cos_lower:
  assumes "\<bar>r\<bar> \<le> pi / 2"
  shows "(pi / 2 - \<bar>r\<bar>) / 4 \<le> cos r"
proof -
  have "pi / 2 - \<bar>r\<bar> \<le> 21 / 10"
    using pi_half_less_two by argo
  then have "(pi / 2 - \<bar>r\<bar>) / 4 \<le> sin (pi / 2 - \<bar>r\<bar>)"
    using assms by (intro sin_lower) simp_all
  also have "\<dots> = cos \<bar>r\<bar>"
    by (simp add: cos_sin_eq)
  also have "\<dots> = cos r"
    by (simp add: abs_if)
  finally show ?thesis .
qed

lemma cos_bound:
  fixes x :: real
  shows "1 - x * x / 2 \<le> cos x"
proof -
  have "cos x = 1 - 2 * (sin (x / 2))\<^sup>2"
    using cos_double_sin [of "x / 2"] by simp
  moreover have "(sin (x / 2))\<^sup>2 \<le> (x / 2)\<^sup>2"
    using abs_sin_x_le_abs_x [of "x / 2"] by (simp add: abs_le_square_iff [symmetric])
  ultimately show ?thesis
    by (simp add: power2_eq_square)
qed

lemma arctan_lower:
  assumes "0 \<le> z"
  shows "min z 1 / 2 \<le> arctan z"
proof -
  define w where "w = min z 1 / 2"
  have w: "0 \<le> w" "w \<le> 1 / 2" "2 * w \<le> z"
    using assms by (simp_all add: w_def min_def)
  have "w * w \<le> (1 / 2) * (1 / 2)"
    using w by (intro mult_mono) simp_all
  then have c: "1 / 2 \<le> cos w"
    using cos_bound [of w] by argo
  have s: "sin w \<le> w"
    using w(1) by (rule sin_x_le_x)
  have "tan w = sin w / cos w"
    by (simp add: tan_def)
  also have "\<dots> \<le> w / (1 / 2)"
    using s c w(1) by (intro frac_le) simp_all
  also have "\<dots> \<le> z"
    using w(3) by simp
  finally have "arctan (tan w) \<le> arctan z"
    by (simp add: arctan_le_iff)
  moreover have "w < pi / 2"
    using w(2) pi_ge_two by argo
  then have "arctan (tan w) = w"
    using w(1) by (intro arctan_tan) argo+
  ultimately show ?thesis
    unfolding w_def by simp
qed

lemma atan2_lower:
  assumes "0 < y" and "x \<le> 2"
  shows "min y 1 / 4 \<le> atan2 y x"
proof -
  consider "0 < x" | "x < 0" | "x = 0" by argo
  then show ?thesis
  proof cases
    case 1
    have "y / 2 \<le> y / x"
      using 1 assms by (intro divide_left_mono) simp_all
    then have "arctan (y / 2) \<le> arctan (y / x)"
      by (simp add: arctan_le_iff)
    moreover have "min (y / 2) 1 / 2 \<le> arctan (y / 2)"
      using assms(1) by (intro arctan_lower) simp
    moreover have "min y 1 / 4 \<le> min (y / 2) 1 / 2"
      using assms(1) by (simp add: min_def)
    ultimately show ?thesis
      using 1 by (simp add: atan2_def)
  next
    case 2
    have "- (pi / 2) < arctan (y / x)"
      by (rule arctan_lbound)
    then have "1 \<le> arctan (y / x) + pi"
      using pi_ge_two by argo
    moreover have "min y 1 / 4 \<le> 1"
      by (simp add: min_def)
    ultimately show ?thesis
      using 2 assms(1) by (simp add: atan2_def)
  next
    case 3
    have "min y 1 / 4 \<le> pi / 2"
      using pi_ge_two by (simp add: min_def; argo)
    then show ?thesis
      using 3 assms(1) by (simp add: atan2_def)
  qed
qed


section \<open>The distance in binary64\<close>

text \<open>Bounds on a rounded number, from the rounding error.\<close>

lemma double_abs_upper: "\<bar>double x\<bar> \<le> \<bar>x\<bar> * (1 + 1 / 2 ^ 53) + tiny"
  using double_error [of x] by (simp; argo)

lemma double_abs_lower: "\<bar>x\<bar> * (1 - 1 / 2 ^ 53) - tiny \<le> \<bar>double x\<bar>"
  using double_error [of x] by (simp; argo)

lemma double_half: "4 * tiny \<le> \<bar>x\<bar> \<Longrightarrow> \<bar>x\<bar> / 2 \<le> \<bar>double x\<bar>"
  using double_abs_lower [of x] by (simp; argo)

lemma double_pos: "4 * tiny \<le> x \<Longrightarrow> x / 2 \<le> double x"
  using double_lower [of x] tiny_pos by (simp; argo)

text \<open>
  The factor \<^verbatim>\<open>Math.PI / 180\<close>, an angle in radians and half the difference of two
  angles in radians, as the code computes them.
\<close>

lemma radians_factor:
  "pi / 180 * (1 - 1 / 2 ^ 51) \<le> double (double pi / 180) \<and>
   double (double pi / 180) \<le> pi / 180 * (1 + 1 / 2 ^ 51)"
proof -
  define p where "p = double pi"
  define K where "K = double (p / 180)"
  have "\<bar>p - pi\<bar> \<le> pi / 2 ^ 53 + tiny"
    unfolding p_def using double_error [of pi] by simp
  then have p: "pi * (1 - 1 / 2 ^ 52) \<le> p" "p \<le> pi * (1 + 1 / 2 ^ 52)"
    using tiny_small pi_ge_two by (simp; argo)+
  then have p0: "0 \<le> p"
    using pi_ge_two by (simp; argo)
  have "\<bar>K - p / 180\<bar> \<le> \<bar>p / 180\<bar> / 2 ^ 53 + tiny"
    unfolding K_def by (rule double_error)
  then have "\<bar>K - p / 180\<bar> \<le> p / 180 / 2 ^ 53 + tiny"
    using p0 by simp
  then have "p / 180 - p / 180 / 2 ^ 53 - tiny \<le> K" "K \<le> p / 180 + p / 180 / 2 ^ 53 + tiny"
    by argo+
  then have "pi / 180 * (1 - 1 / 2 ^ 51) \<le> K" "K \<le> pi / 180 * (1 + 1 / 2 ^ 51)"
    using p tiny_small pi_ge_two by (simp; argo)+
  then show ?thesis
    unfolding K_def p_def by simp
qed

lemma radians_factor_nonneg: "0 \<le> double (double pi / 180)"
  using radians_factor pi_ge_two by (simp; argo)

lemma radians_upper:
  "\<bar>double (x * double (double pi / 180))\<bar> \<le> \<bar>x\<bar> * (pi / 180) * (1 + 1 / 2 ^ 50) + tiny"
proof -
  define K where "K = double (double pi / 180)"
  define \<theta> where "\<theta> = \<bar>x\<bar> * (pi / 180)"
  have \<theta>: "0 \<le> \<theta>"
    by (simp add: \<theta>_def)
  have "\<bar>x * K\<bar> = \<bar>x\<bar> * K"
    using radians_factor_nonneg by (simp add: K_def abs_mult)
  also have "\<dots> \<le> \<bar>x\<bar> * (pi / 180 * (1 + 1 / 2 ^ 51))"
    using radians_factor unfolding K_def by (intro mult_left_mono) simp_all
  also have "\<dots> = \<theta> * (1 + 1 / 2 ^ 51)"
    by (simp add: \<theta>_def)
  finally have "\<bar>x * K\<bar> \<le> \<theta> * (1 + 1 / 2 ^ 51)" .
  moreover have "\<bar>double (x * K)\<bar> \<le> \<bar>x * K\<bar> * (1 + 1 / 2 ^ 53) + tiny"
    by (rule double_abs_upper)
  ultimately have "\<bar>double (x * K)\<bar> \<le> \<theta> * (1 + 1 / 2 ^ 50) + tiny"
    using \<theta> by (simp; argo)
  then show ?thesis
    unfolding K_def \<theta>_def .
qed

lemma radians_lower:
  "\<bar>x\<bar> * (pi / 180) * (1 - 1 / 2 ^ 50) - tiny \<le> \<bar>double (x * double (double pi / 180))\<bar>"
proof -
  define K where "K = double (double pi / 180)"
  define \<theta> where "\<theta> = \<bar>x\<bar> * (pi / 180)"
  have \<theta>: "0 \<le> \<theta>"
    by (simp add: \<theta>_def)
  have "\<theta> * (1 - 1 / 2 ^ 51) = \<bar>x\<bar> * (pi / 180 * (1 - 1 / 2 ^ 51))"
    by (simp add: \<theta>_def)
  also have "\<dots> \<le> \<bar>x\<bar> * K"
    using radians_factor unfolding K_def by (intro mult_left_mono) simp_all
  also have "\<dots> = \<bar>x * K\<bar>"
    using radians_factor_nonneg by (simp add: K_def abs_mult)
  finally have "\<theta> * (1 - 1 / 2 ^ 51) \<le> \<bar>x * K\<bar>" .
  moreover have "\<bar>x * K\<bar> * (1 - 1 / 2 ^ 53) - tiny \<le> \<bar>double (x * K)\<bar>"
    by (rule double_abs_lower)
  ultimately have "\<theta> * (1 - 1 / 2 ^ 50) - tiny \<le> \<bar>double (x * K)\<bar>"
    using \<theta> by (simp; argo)
  then show ?thesis
    unfolding K_def \<theta>_def .
qed

lemma half_angle:
  "\<bar>d\<bar> * (pi / 360) * (1 - 1 / 2 ^ 49) - 4 * tiny
     \<le> \<bar>double (double (double d * double (double pi / 180)) / 2)\<bar> \<and>
   \<bar>double (double (double d * double (double pi / 180)) / 2)\<bar>
     \<le> \<bar>d\<bar> * (pi / 360) * (1 + 1 / 2 ^ 49) + 4 * tiny"
proof -
  define K where "K = double (double pi / 180)"
  define \<theta> where "\<theta> = \<bar>d\<bar> * (pi / 180)"
  define \<theta>' where "\<theta>' = \<bar>double d\<bar> * (pi / 180)"
  define q where "q = double (double d * K)"
  have \<theta>: "0 \<le> \<theta>"
    by (simp add: \<theta>_def)
  have p: "0 \<le> pi / 180" "pi / 180 \<le> 1"
    using pi_less_4 by simp_all
  have "tiny * (pi / 180) \<le> tiny * 1"
    using p tiny_pos by (intro mult_left_mono) simp_all
  then have t: "tiny * (pi / 180) \<le> tiny"
    by simp
  have "\<theta>' \<le> (\<bar>d\<bar> * (1 + 1 / 2 ^ 53) + tiny) * (pi / 180)"
    unfolding \<theta>'_def using double_abs_upper [of d] p(1) by (intro mult_right_mono)
  also have "\<dots> = \<theta> * (1 + 1 / 2 ^ 53) + tiny * (pi / 180)"
    by (simp add: \<theta>_def algebra_simps)
  finally have up: "\<theta>' \<le> \<theta> * (1 + 1 / 2 ^ 53) + tiny"
    using t by argo
  have "\<theta> * (1 - 1 / 2 ^ 53) - tiny * (pi / 180) = (\<bar>d\<bar> * (1 - 1 / 2 ^ 53) - tiny) * (pi / 180)"
    by (simp add: \<theta>_def algebra_simps)
  also have "\<dots> \<le> \<theta>'"
    unfolding \<theta>'_def using double_abs_lower [of d] p(1) by (intro mult_right_mono)
  finally have lo: "\<theta> * (1 - 1 / 2 ^ 53) - tiny \<le> \<theta>'"
    using t by argo
  have q: "\<theta>' * (1 - 1 / 2 ^ 50) - tiny \<le> \<bar>q\<bar>" "\<bar>q\<bar> \<le> \<theta>' * (1 + 1 / 2 ^ 50) + tiny"
    unfolding q_def K_def \<theta>'_def by (rule radians_lower, rule radians_upper)
  have h: "\<bar>q / 2\<bar> * (1 - 1 / 2 ^ 53) - tiny \<le> \<bar>double (q / 2)\<bar>"
          "\<bar>double (q / 2)\<bar> \<le> \<bar>q / 2\<bar> * (1 + 1 / 2 ^ 53) + tiny"
    by (rule double_abs_lower, rule double_abs_upper)
  have "\<theta> / 2 * (1 - 1 / 2 ^ 49) - 4 * tiny \<le> \<bar>double (q / 2)\<bar>"
    using lo q(1) h(1) \<theta> tiny_pos by (simp; argo)
  moreover have "\<bar>double (q / 2)\<bar> \<le> \<theta> / 2 * (1 + 1 / 2 ^ 49) + 4 * tiny"
    using up q(2) h(2) \<theta> tiny_pos by (simp; argo)
  ultimately show ?thesis
    unfolding q_def K_def \<theta>_def by simp
qed

text \<open>The distance and the time of the first leg, in terms of \<open>haversine_a_double\<close>.\<close>

lemma calculateDistance_double_eq:
  "calculateDistance_double M lat1 lon1 lat2 lon2 =
     (if haversine_a_double M lat1 lon1 lat2 lon2 < 0 \<or>
         double (1 - haversine_a_double M lat1 lon1 lat2 lon2) < 0 then NaN
      else Num (double (6371 * double (2 * Math_atan2 M
                  (Math_sqrt M (haversine_a_double M lat1 lon1 lat2 lon2))
                  (Math_sqrt M (double (1 - haversine_a_double M lat1 lon1 lat2 lon2)))))))"
  by (simp add: calculateDistance_double_def haversine_a_double_def Math_PI_def Let_def)

lemma timeToUser_double_eq:
  "timeToUser_double M lat1 lon1 lat2 lon2 =
     (if haversine_a_double M lat1 lon1 lat2 lon2 < 0 \<or>
         double (1 - haversine_a_double M lat1 lon1 lat2 lon2) < 0 then NaN
      else Num (double (double (double (6371 * double (2 * Math_atan2 M
                  (Math_sqrt M (haversine_a_double M lat1 lon1 lat2 lon2))
                  (Math_sqrt M (double (1 - haversine_a_double M lat1 lon1 lat2 lon2))))) / 40)
                  * 3600)))"
  by (simp add: timeToUser_double_def calculateDistance_double_eq)

text \<open>What an accurate library guarantees.\<close>

lemma accurate_sin: "accurate M \<Longrightarrow> \<bar>Math_sin M x - sin x\<bar> \<le> \<bar>sin x\<bar> / 2 ^ 50 + 2 * tiny"
  by (simp add: accurate_def)

lemma accurate_cos: "accurate M \<Longrightarrow> \<bar>Math_cos M x - cos x\<bar> \<le> \<bar>cos x\<bar> / 2 ^ 50 + 2 * tiny"
  by (simp add: accurate_def)

lemma accurate_sqrt:
  "accurate M \<Longrightarrow> 0 \<le> x \<Longrightarrow> \<bar>Math_sqrt M x - sqrt x\<bar> \<le> sqrt x / 2 ^ 50 + 2 * tiny"
  by (simp add: accurate_def)

lemma accurate_atan2:
  "accurate M \<Longrightarrow> \<bar>Math_atan2 M y x - atan2 y x\<bar> \<le> \<bar>atan2 y x\<bar> / 2 ^ 50 + 2 * tiny"
  by (simp add: accurate_def)

text \<open>
  Away from the poles the cosine of a latitude is computed positive; the sine of half a
  difference of at least \<open>2\<^sup>-\<^sup>5\<^sup>0\<^sup>0\<close> degrees, and less than a full turn, is computed
  away from zero.
\<close>

lemma cos_latitude:
  assumes "accurate M" and "\<bar>lat\<bar> \<le> 89.999"
  shows "1 / 2 ^ 20 \<le> Math_cos M (double (lat * double (double pi / 180)))"
proof -
  define r where "r = double (lat * double (double pi / 180))"
  define \<theta> where "\<theta> = \<bar>lat\<bar> * (pi / 180)"
  have "\<theta> \<le> 89.999 * (pi / 180)"
    unfolding \<theta>_def using assms(2) by (intro mult_right_mono) simp_all
  moreover have "\<bar>r\<bar> \<le> \<theta> * (1 + 1 / 2 ^ 50) + tiny"
    unfolding r_def \<theta>_def by (rule radians_upper)
  ultimately have r: "\<bar>r\<bar> \<le> pi / 2 - 1 / 10 ^ 5"
    using pi_ge_two tiny_small by (simp; argo)
  then have "\<bar>r\<bar> \<le> pi / 2"
    by (simp; argo)
  then have "(pi / 2 - \<bar>r\<bar>) / 4 \<le> cos r"
    by (rule cos_lower)
  then have c: "1 / (4 * 10 ^ 5) \<le> cos r"
    using r by (simp; argo)
  have "\<bar>Math_cos M r - cos r\<bar> \<le> \<bar>cos r\<bar> / 2 ^ 50 + 2 * tiny"
    using assms(1) by (rule accurate_cos)
  then show ?thesis
    unfolding r_def [symmetric] using c tiny_small by (simp; argo)
qed

lemma sin_half_difference:
  assumes "accurate M" and "1 / 2 ^ 500 \<le> \<bar>d\<bar>" and "\<bar>d\<bar> \<le> 359.999"
  shows "1 / 2 ^ 512 \<le> \<bar>Math_sin M (double (double (double d * double (double pi / 180)) / 2))\<bar>"
proof -
  define h where "h = double (double (double d * double (double pi / 180)) / 2)"
  define \<tau> :: real where "\<tau> = 1 / 2 ^ 500"
  have \<tau>: "0 < \<tau>" "tiny \<le> \<tau> / 2 ^ 500" "\<tau> \<le> 1 / 2 ^ 100"
    by (simp_all add: \<tau>_def tiny_def)
  have d: "\<tau> \<le> \<bar>d\<bar>"
    using assms(2) by (simp add: \<tau>_def)
  define \<theta> where "\<theta> = \<bar>d\<bar> * (pi / 360)"
  have h: "\<theta> * (1 - 1 / 2 ^ 49) - 4 * tiny \<le> \<bar>h\<bar>"
          "\<bar>h\<bar> \<le> \<theta> * (1 + 1 / 2 ^ 49) + 4 * tiny"
    unfolding h_def \<theta>_def using half_angle [of d] by simp_all
  have "\<theta> \<le> 359.999 * (pi / 360)"
    unfolding \<theta>_def using assms(3) by (intro mult_right_mono) simp_all
  then have up: "\<bar>h\<bar> \<le> pi - 1 / 10 ^ 6"
    using h(2) pi_ge_two \<tau> by (simp; argo)
  have "\<bar>d\<bar> * (2 / 360) \<le> \<theta>"
    unfolding \<theta>_def using pi_ge_two by (intro mult_left_mono) simp_all
  then have lo: "\<tau> / 2 ^ 8 \<le> \<bar>h\<bar>"
    using h(1) d \<tau> by (simp; argo)
  have "\<bar>h\<bar> \<le> pi"
    using up by (simp; argo)
  then have "min \<bar>h\<bar> (pi - \<bar>h\<bar>) / 4 \<le> sin \<bar>h\<bar>"
    by (intro sin_lower_pi) simp_all
  moreover have "\<tau> / 2 ^ 8 \<le> min \<bar>h\<bar> (pi - \<bar>h\<bar>)"
    using lo up \<tau> by (simp add: min_def; argo)
  moreover have "sin \<bar>h\<bar> \<le> \<bar>sin h\<bar>"
    by (simp add: abs_if)
  ultimately have s: "\<tau> / 2 ^ 10 \<le> \<bar>sin h\<bar>"
    by (simp; argo)
  have "\<bar>Math_sin M h - sin h\<bar> \<le> \<bar>sin h\<bar> / 2 ^ 50 + 2 * tiny"
    using assms(1) by (rule accurate_sin)
  then have "\<tau> / 2 ^ 12 \<le> \<bar>Math_sin M h\<bar>"
    using s \<tau> by (simp; argo)
  then show ?thesis
    unfolding h_def \<tau>_def by simp
qed

text \<open>
  The second term of \<open>a\<close> is the rounded product of a rounded product with the same
  sine: it cannot be negative when the product of the cosines is not.
\<close>

lemma same_sign:
  assumes "0 \<le> cc"
  shows "double (cc * s) * s = \<bar>double (cc * s)\<bar> * \<bar>s\<bar>"
proof (cases "0 \<le> s")
  case True
  then have "0 \<le> double (cc * s)"
    using assms by (intro double_nonneg) simp
  then show ?thesis
    using True by simp
next
  case False
  then have "cc * s \<le> 0"
    using assms by (simp add: mult_nonneg_nonpos)
  then have "double (cc * s) \<le> 0"
    by (rule double_nonpos)
  then show ?thesis
    using False by simp
qed

lemma cos_latitudes_product:
  assumes "accurate M" and "\<bar>lat1\<bar> \<le> 89.999" and "\<bar>lat2\<bar> \<le> 89.999"
  shows "1 / 2 ^ 41 \<le> double (Math_cos M (double (lat1 * double (double pi / 180))) *
                             Math_cos M (double (lat2 * double (double pi / 180))))"
proof -
  define c1 where "c1 = Math_cos M (double (lat1 * double (double pi / 180)))"
  define c2 where "c2 = Math_cos M (double (lat2 * double (double pi / 180)))"
  have c: "1 / 2 ^ 20 \<le> c1" "1 / 2 ^ 20 \<le> c2"
    unfolding c1_def c2_def
    by (rule cos_latitude [OF assms(1,2)], rule cos_latitude [OF assms(1,3)])
  have "(1 / 2 ^ 20) * (1 / 2 ^ 20) \<le> c1 * c2"
    using c by (intro mult_mono) simp_all
  then have p: "1 / 2 ^ 40 \<le> c1 * c2"
    by simp
  have "4 * tiny \<le> 1 / 2 ^ 40"
    by (simp add: tiny_def)
  then have "4 * tiny \<le> c1 * c2"
    using p by (rule order_trans)
  then have "c1 * c2 / 2 \<le> double (c1 * c2)"
    by (rule double_pos)
  then show ?thesis
    unfolding c1_def [symmetric] c2_def [symmetric] using p by (simp; argo)
qed

lemma haversine_a_double_lower:
  assumes "accurate M" and "\<bar>lat1\<bar> \<le> 89.999" and "\<bar>lat2\<bar> \<le> 89.999"
    and "1 / 2 ^ 500 \<le> \<bar>lat2 - lat1\<bar> \<or>
         1 / 2 ^ 500 \<le> \<bar>lon2 - lon1\<bar> \<and> \<bar>lon2 - lon1\<bar> \<le> 359.999"
  shows "1 / 2 ^ 1068 \<le> haversine_a_double M lat1 lon1 lat2 lon2"
proof -
  define K where "K = double (double pi / 180)"
  define sLat where "sLat = Math_sin M (double (double (double (lat2 - lat1) * K) / 2))"
  define sLon where "sLon = Math_sin M (double (double (double (lon2 - lon1) * K) / 2))"
  define cc where "cc = double (Math_cos M (double (lat1 * K)) * Math_cos M (double (lat2 * K)))"
  define t1 where "t1 = double (sLat * sLat)"
  define t2 where "t2 = double (double (cc * sLon) * sLon)"
  define \<rho> :: real where "\<rho> = 1 / 2 ^ 1068"
  have a: "haversine_a_double M lat1 lon1 lat2 lon2 = double (t1 + t2)"
    by (simp add: haversine_a_double_def Let_def t1_def t2_def cc_def sLat_def sLon_def K_def)
  have \<rho>: "4 * tiny \<le> \<rho>" "0 < \<rho>"
    by (simp_all add: \<rho>_def tiny_def)
  have cc: "1 / 2 ^ 41 \<le> cc"
    unfolding cc_def K_def using assms(1-3) by (rule cos_latitudes_product)
  then have cc0: "0 \<le> cc"
    by (rule order_trans [rotated]) simp
  have t1: "0 \<le> t1"
    unfolding t1_def by (intro double_nonneg) simp
  have prod: "double (cc * sLon) * sLon = \<bar>double (cc * sLon)\<bar> * \<bar>sLon\<bar>"
    using cc0 by (rule same_sign)
  then have "0 \<le> double (cc * sLon) * sLon"
    by simp
  then have t2: "0 \<le> t2"
    unfolding t2_def by (rule double_nonneg)
  have "2 * \<rho> \<le> t1 + t2"
    using assms(4)
  proof
    assume "1 / 2 ^ 500 \<le> \<bar>lat2 - lat1\<bar>"
    moreover have "\<bar>lat2 - lat1\<bar> \<le> 359.999"
      using assms(2,3) by (simp; argo)
    ultimately have s: "1 / 2 ^ 512 \<le> \<bar>sLat\<bar>"
      unfolding sLat_def K_def using assms(1) by (intro sin_half_difference)
    have "(1 / 2 ^ 512) * (1 / 2 ^ 512) \<le> \<bar>sLat\<bar> * \<bar>sLat\<bar>"
      using s by (intro mult_mono) simp_all
    moreover have "8 * \<rho> \<le> (1 / 2 ^ 512) * (1 / 2 ^ 512)"
      by (simp add: \<rho>_def)
    ultimately have sq: "8 * \<rho> \<le> sLat * sLat"
      by simp
    then have "4 * tiny \<le> sLat * sLat"
      using \<rho> by argo
    then have "sLat * sLat / 2 \<le> t1"
      unfolding t1_def by (rule double_pos)
    then show ?thesis
      using sq t2 \<rho> by argo
  next
    assume "1 / 2 ^ 500 \<le> \<bar>lon2 - lon1\<bar> \<and> \<bar>lon2 - lon1\<bar> \<le> 359.999"
    then have s: "1 / 2 ^ 512 \<le> \<bar>sLon\<bar>"
      unfolding sLon_def K_def using assms(1) by (intro sin_half_difference) simp_all
    define \<sigma> :: real where "\<sigma> = 1 / 2 ^ 553"
    have \<sigma>: "4 * tiny \<le> \<sigma>" "\<sigma> = (1 / 2 ^ 41) * (1 / 2 ^ 512)"
                "4 * \<rho> = \<sigma> / 2 * (1 / 2 ^ 512)"
      by (simp_all add: \<sigma>_def \<rho>_def tiny_def)
    have "(1 / 2 ^ 41) * (1 / 2 ^ 512) \<le> cc * \<bar>sLon\<bar>"
      using cc s by (intro mult_mono) simp_all
    then have 1: "\<sigma> \<le> \<bar>cc * sLon\<bar>"
      using cc0 unfolding \<sigma>(2) by (simp add: abs_mult)
    then have "4 * tiny \<le> \<bar>cc * sLon\<bar>"
      using \<sigma>(1) by argo
    then have "\<bar>cc * sLon\<bar> / 2 \<le> \<bar>double (cc * sLon)\<bar>"
      by (rule double_half)
    then have 2: "\<sigma> / 2 \<le> \<bar>double (cc * sLon)\<bar>"
      using 1 by argo
    have "\<sigma> / 2 * (1 / 2 ^ 512) \<le> \<bar>double (cc * sLon)\<bar> * \<bar>sLon\<bar>"
      using 2 s \<sigma>(1) tiny_pos by (intro mult_mono) simp_all
    then have p: "4 * \<rho> \<le> double (cc * sLon) * sLon"
      unfolding prod \<sigma>(3) .
    then have "4 * tiny \<le> double (cc * sLon) * sLon"
      using \<rho> by argo
    then have "double (cc * sLon) * sLon / 2 \<le> t2"
      unfolding t2_def by (rule double_pos)
    then show ?thesis
      using p t1 \<rho> by argo
  qed
  moreover have "4 * tiny \<le> t1 + t2"
    using calculation \<rho> by argo
  then have "(t1 + t2) / 2 \<le> double (t1 + t2)"
    by (rule double_pos)
  ultimately have "\<rho> \<le> double (t1 + t2)"
    using \<rho> by argo
  then show ?thesis
    unfolding a \<rho>_def .
qed

text \<open>
  From a term \<open>a\<close> of at least \<open>2\<^sup>-\<^sup>1\<^sup>0\<^sup>6\<^sup>8\<close> the time of the leg is computed positive,
  unless \<open>1 - a\<close> is negative and its square root \<^verbatim>\<open>NaN\<close>.
\<close>

lemma leg_time_positive:
  assumes "accurate M" and "1 / 2 ^ 1068 \<le> a" and "0 \<le> double (1 - a)"
  shows "0 < double (double (double (6371 * double (2 * Math_atan2 M
                  (Math_sqrt M a) (Math_sqrt M (double (1 - a))))) / 40) * 3600)"
proof -
  define w :: real where "w = 1 / 2 ^ 534"
  define y where "y = Math_sqrt M a"
  define om where "om = double (1 - a)"
  define x where "x = Math_sqrt M om"
  define ang where "ang = Math_atan2 M y x"
  define c where "c = double (2 * ang)"
  define dist where "dist = double (6371 * c)"
  define q where "q = double (dist / 40)"
  have w: "0 < w" "w \<le> 1" "tiny \<le> w / 2 ^ 500"
    by (simp_all add: w_def tiny_def)
  have "w\<^sup>2 \<le> a"
    using assms(2) by (simp add: w_def power2_eq_square)
  then have sq: "w \<le> sqrt a"
    by (rule real_le_rsqrt)
  have a0: "0 \<le> a"
    using assms(2) by (rule order_trans [rotated]) simp
  have "\<bar>y - sqrt a\<bar> \<le> sqrt a / 2 ^ 50 + 2 * tiny"
    unfolding y_def using assms(1) a0 by (rule accurate_sqrt)
  then have y: "w / 2 \<le> y"
    using sq w by (simp; argo)
  have om0: "0 \<le> om"
    unfolding om_def by (rule assms(3))
  have "om \<le> 2"
  proof (cases "1 - a \<le> 0")
    case True
    then have "om \<le> 0"
      unfolding om_def by (rule double_nonpos)
    then show ?thesis by simp
  next
    case False
    then have "\<bar>1 - a\<bar> \<le> 1"
      using a0 by simp
    moreover have "\<bar>om\<bar> \<le> \<bar>1 - a\<bar> * (1 + 1 / 2 ^ 53) + tiny"
      unfolding om_def by (rule double_abs_upper)
    ultimately show ?thesis
      using tiny_small by (simp; argo)
  qed
  then have "om \<le> (3 / 2)\<^sup>2"
    by (simp add: power2_eq_square)
  then have "sqrt om \<le> 3 / 2"
    by (intro real_le_lsqrt) simp_all
  moreover have "\<bar>x - sqrt om\<bar> \<le> sqrt om / 2 ^ 50 + 2 * tiny"
    unfolding x_def using assms(1) om0 by (rule accurate_sqrt)
  moreover have "0 \<le> sqrt om"
    using om0 by simp
  ultimately have x: "x \<le> 2"
    using tiny_small by (simp; argo)
  have "0 < y"
    using y w by argo
  then have "min y 1 / 4 \<le> atan2 y x"
    using x by (rule atan2_lower)
  then have t: "w / 8 \<le> atan2 y x"
    using y w by (simp add: min_def; argo)
  have "\<bar>ang - atan2 y x\<bar> \<le> \<bar>atan2 y x\<bar> / 2 ^ 50 + 2 * tiny"
    unfolding ang_def using assms(1) by (rule accurate_atan2)
  then have ang: "w / 16 \<le> ang"
    using t w by (simp; argo)
  then have "4 * tiny \<le> 2 * ang"
    using w by (simp; argo)
  then have "2 * ang / 2 \<le> c"
    unfolding c_def by (rule double_pos)
  then have c: "w / 16 \<le> c"
    using ang by argo
  then have "4 * tiny \<le> 6371 * c"
    using w by (simp; argo)
  then have "6371 * c / 2 \<le> dist"
    unfolding dist_def by (rule double_pos)
  then have dist: "w / 16 \<le> dist"
    using c w by argo
  then have "4 * tiny \<le> dist / 40"
    using w by (simp; argo)
  then have "dist / 40 / 2 \<le> q"
    unfolding q_def by (rule double_pos)
  then have q: "w / 2 ^ 11 \<le> q"
    using dist w by (simp; argo)
  then have "4 * tiny \<le> q * 3600"
    using w by (simp; argo)
  then have "q * 3600 / 2 \<le> double (q * 3600)"
    by (rule double_pos)
  then have "0 < double (q * 3600)"
    using q w by (simp; argo)
  then show ?thesis
    unfolding q_def dist_def c_def ang_def x_def om_def y_def .
qed

text \<open>
  For differences of at most 89 degrees on both axes the term \<open>a\<close> is computed below 1,
  so that the square root of \<open>1 - a\<close> is a number.
\<close>

lemma sin_square_upper:
  assumes "\<bar>h\<bar> \<le> pi / 4 - 1 / 200"
  shows "sin h * sin h \<le> 1 / 2 - 1 / 800"
proof -
  have r: "\<bar>2 * h\<bar> \<le> pi / 2 - 1 / 100"
    using assms by (simp; argo)
  then have "\<bar>2 * h\<bar> \<le> pi / 2"
    by (simp; argo)
  then have "(pi / 2 - \<bar>2 * h\<bar>) / 4 \<le> cos (2 * h)"
    by (rule cos_lower)
  then have "1 / 400 \<le> cos (2 * h)"
    using r by (simp; argo)
  moreover have "cos (2 * h) = 1 - 2 * (sin h * sin h)"
    by (simp add: cos_double_sin power2_eq_square)
  ultimately show ?thesis
    by (simp; argo)
qed

lemma sin_half_square:
  assumes "accurate M" and "\<bar>d\<bar> \<le> 89"
  shows "Math_sin M (double (double (double d * double (double pi / 180)) / 2)) *
         Math_sin M (double (double (double d * double (double pi / 180)) / 2)) \<le> 499 / 1000"
proof -
  define h where "h = double (double (double d * double (double pi / 180)) / 2)"
  define \<theta> where "\<theta> = \<bar>d\<bar> * (pi / 360)"
  define e where "e = \<bar>sin h\<bar>"
  define s where "s = \<bar>Math_sin M h\<bar>"
  have "\<bar>h\<bar> \<le> \<theta> * (1 + 1 / 2 ^ 49) + 4 * tiny"
    unfolding h_def \<theta>_def using half_angle [of d] by simp
  moreover have "\<theta> \<le> 89 * (pi / 360)"
    unfolding \<theta>_def using assms(2) by (intro mult_right_mono) simp_all
  ultimately have "\<bar>h\<bar> \<le> pi / 4 - 1 / 200"
    using pi_ge_two pi_less_4 tiny_small by (simp; argo)
  then have "sin h * sin h \<le> 1 / 2 - 1 / 800"
    by (rule sin_square_upper)
  then have ee: "e * e \<le> 1 / 2 - 1 / 800"
    by (simp add: e_def)
  have e: "0 \<le> e" "e \<le> 1"
    by (simp_all add: e_def)
  have "\<bar>Math_sin M h - sin h\<bar> \<le> \<bar>sin h\<bar> / 2 ^ 50 + 2 * tiny"
    using assms(1) by (rule accurate_sin)
  then have s: "s \<le> e + 1 / 2 ^ 49"
    unfolding s_def e_def using tiny_small abs_sin_le_one [of h] by (simp; argo)
  have s0: "0 \<le> s"
    by (simp add: s_def)
  have "s * s \<le> (e + 1 / 2 ^ 49) * (e + 1 / 2 ^ 49)"
    using s s0 e by (intro mult_mono) simp_all
  also have "\<dots> = e * e + e * (2 / 2 ^ 49) + (1 / 2 ^ 49) * (1 / 2 ^ 49)"
    by (simp add: algebra_simps)
  also have "\<dots> \<le> 499 / 1000"
    using ee e by (simp; argo)
  finally show ?thesis
    unfolding s_def h_def by simp
qed

lemma cos_computed: "accurate M \<Longrightarrow> \<bar>Math_cos M r\<bar> \<le> 1 + 1 / 2 ^ 49"
  using accurate_cos [of M r] abs_cos_le_one [of r] tiny_small by (simp; argo)

lemma haversine_a_double_upper:
  assumes "accurate M" and "\<bar>lat2 - lat1\<bar> \<le> 89" and "\<bar>lon2 - lon1\<bar> \<le> 89"
  shows "haversine_a_double M lat1 lon1 lat2 lon2 \<le> 999 / 1000"
proof -
  define K where "K = double (double pi / 180)"
  define sLat where "sLat = Math_sin M (double (double (double (lat2 - lat1) * K) / 2))"
  define sLon where "sLon = Math_sin M (double (double (double (lon2 - lon1) * K) / 2))"
  define c1 where "c1 = Math_cos M (double (lat1 * K))"
  define c2 where "c2 = Math_cos M (double (lat2 * K))"
  define cc where "cc = double (c1 * c2)"
  define ccs where "ccs = double (cc * sLon)"
  define t1 where "t1 = double (sLat * sLat)"
  define t2 where "t2 = double (ccs * sLon)"
  define S where "S = \<bar>sLon\<bar>"
  define Q where "Q = S * S"
  define C where "C = \<bar>cc\<bar>"
  have a: "haversine_a_double M lat1 lon1 lat2 lon2 = double (t1 + t2)"
    by (simp add: haversine_a_double_def Let_def t1_def t2_def ccs_def cc_def c1_def c2_def
        sLat_def sLon_def K_def)
  have sLat: "sLat * sLat \<le> 499 / 1000"
    unfolding sLat_def K_def using assms(1,2) by (rule sin_half_square)
  have "sLon * sLon \<le> 499 / 1000"
    unfolding sLon_def K_def using assms(1,3) by (rule sin_half_square)
  then have Q: "Q \<le> 499 / 1000" "0 \<le> Q"
    by (simp_all add: Q_def S_def)
  have S0: "0 \<le> S"
    by (simp add: S_def)
  have "S\<^sup>2 \<le> 1\<^sup>2"
    using Q(1) by (simp add: Q_def power2_eq_square)
  then have S1: "S \<le> 1"
    by (rule power2_le_imp_le) simp
  have "\<bar>double (sLat * sLat)\<bar> \<le> \<bar>sLat * sLat\<bar> * (1 + 1 / 2 ^ 53) + tiny"
    by (rule double_abs_upper)
  then have t1: "t1 \<le> 4991 / 10000"
    unfolding t1_def using sLat tiny_small by (simp; argo)
  have "\<bar>c1\<bar> * \<bar>c2\<bar> \<le> (1 + 1 / 2 ^ 49) * (1 + 1 / 2 ^ 49)"
    unfolding c1_def c2_def using assms(1) by (intro mult_mono cos_computed) simp_all
  moreover have "\<bar>double (c1 * c2)\<bar> \<le> \<bar>c1 * c2\<bar> * (1 + 1 / 2 ^ 53) + tiny"
    by (rule double_abs_upper)
  ultimately have "C \<le> 1 + 1 / 2 ^ 46"
    unfolding C_def cc_def using tiny_small by (simp add: abs_mult; argo)
  moreover have "0 \<le> C"
    by (simp add: C_def)
  ultimately have C: "C \<le> 1 + 1 / 2 ^ 46" "0 \<le> C"
    by simp_all
  have "\<bar>ccs\<bar> \<le> \<bar>cc * sLon\<bar> * (1 + 1 / 2 ^ 53) + tiny"
    unfolding ccs_def by (rule double_abs_upper)
  then have "\<bar>ccs\<bar> \<le> C * S * (1 + 1 / 2 ^ 53) + tiny"
    by (simp add: C_def S_def abs_mult)
  then have "\<bar>ccs\<bar> * S \<le> (C * S * (1 + 1 / 2 ^ 53) + tiny) * S"
    using S0 by (rule mult_right_mono)
  also have "\<dots> = C * Q * (1 + 1 / 2 ^ 53) + tiny * S"
    by (simp add: Q_def algebra_simps)
  finally have 1: "\<bar>ccs * sLon\<bar> \<le> C * Q * (1 + 1 / 2 ^ 53) + tiny * S"
    by (simp add: abs_mult S_def)
  have "C * Q \<le> (1 + 1 / 2 ^ 46) * (499 / 1000)"
    using C Q by (intro mult_mono) simp_all
  moreover have "tiny * S \<le> tiny * 1"
    using S1 tiny_pos by (intro mult_left_mono) simp_all
  ultimately have 2: "\<bar>ccs * sLon\<bar> \<le> 4991 / 10000"
    using 1 tiny_small by (simp; argo)
  have "\<bar>double (ccs * sLon)\<bar> \<le> \<bar>ccs * sLon\<bar> * (1 + 1 / 2 ^ 53) + tiny"
    by (rule double_abs_upper)
  then have t2: "t2 \<le> 4992 / 10000"
    unfolding t2_def using 2 tiny_small by (simp; argo)
  have "double (t1 + t2) \<le> (t1 + t2) + \<bar>t1 + t2\<bar> / 2 ^ 53 + tiny"
    by (rule double_upper)
  then have "double (t1 + t2) \<le> 999 / 1000"
    using t1 t2 tiny_small by (simp; argo)
  then show ?thesis
    unfolding a .
qed

text \<open>Underflow: a number of magnitude below \<open>tiny\<close> rounds to zero.\<close>

lemma round_even_small:
  assumes "\<bar>y\<bar> < 1 / 2"
  shows "round_even y = 0"
proof (cases "0 \<le> y")
  case True
  then have "\<lfloor>y\<rfloor> = 0"
    using assms by (intro floor_unique) simp_all
  then show ?thesis
    using assms True by (simp add: round_even_def)
next
  case False
  then have "\<lfloor>y\<rfloor> = - 1"
    using assms by (intro floor_unique) simp_all
  then show ?thesis
    using assms False by (simp add: round_even_def)
qed

lemma double_underflow:
  assumes "\<bar>x\<bar> < tiny"
  shows "double x = 0"
proof (cases "x = 0")
  case True
  then show ?thesis by simp
next
  case False
  have t: "tiny = 2 powr (- 1075)"
    by (simp add: tiny_def powr_minus_divide)
  have "log 2 \<bar>x\<bar> < - 1075"
    using assms False unfolding t by (subst log_less_iff) simp_all
  then have "\<lfloor>log 2 \<bar>x\<bar>\<rfloor> < - 1075"
    by (simp add: floor_less_iff)
  then have "\<lfloor>log 2 \<bar>x\<bar>\<rfloor> - 52 \<le> - 1074"
    by linarith
  then have e: "max (\<lfloor>log 2 \<bar>x\<bar>\<rfloor> - 52) (- 1074) = - 1074"
    by (rule max_absorb2)
  have p: "(2::real) powr of_int (- 1074) = 2 * tiny"
    by (simp add: tiny_def powr_minus_divide)
  have "\<bar>x / (2 * tiny)\<bar> < 1 / 2"
    using assms tiny_pos by (simp add: field_simps)
  then have "round_even (x / (2 * tiny)) = 0"
    by (rule round_even_small)
  then show ?thesis
    by (simp only: double_eq [OF False] e p; simp)
qed

text \<open>The library of nearest binary64 numbers is accurate.\<close>

lemma accurate_rounded_math: "accurate rounded_math"
proof -
  have e: "\<bar>double v - v\<bar> \<le> \<bar>v\<bar> / 2 ^ 50 + 2 * tiny" for v
    using double_error [of v] tiny_pos by (simp; argo)
  have "\<bar>double (sqrt x) - sqrt x\<bar> \<le> sqrt x / 2 ^ 50 + 2 * tiny" if "0 \<le> x" for x
    using e [of "sqrt x"] that by simp
  then show ?thesis
    unfolding accurate_def rounded_math_def using e by simp
qed

text \<open>
  Driver and rider at latitude 45, on meridians \<open>2\<^sup>-\<^sup>5\<^sup>4\<^sup>0\<close> degrees apart: the product of
  the sines of half the difference underflows, and the term \<open>a\<close> is zero.
\<close>

lemma haversine_a_double_underflow:
  "haversine_a_double rounded_math 45 (1 / 2 ^ 540) 45 (1 / 2 ^ 539) = 0"
proof -
  define K where "K = double (double pi / 180)"
  define \<mu> :: real where "\<mu> = 1 / 2 ^ 540"
  define h where "h = double (double (double (1 / 2 ^ 539 - 1 / 2 ^ 540) * K) / 2)"
  define s where "s = double (sin h)"
  define c where "c = double (cos (double (45 * K)))"
  define cc where "cc = double (c * c)"
  define ccs where "ccs = double (cc * s)"
  have a: "haversine_a_double rounded_math 45 (1 / 2 ^ 540) 45 (1 / 2 ^ 539) =
             double (double (ccs * s))"
    by (simp add: haversine_a_double_def rounded_math_def Let_def ccs_def cc_def c_def s_def
        h_def K_def)
  have \<mu>: "0 < \<mu>" "tiny \<le> \<mu> / 2 ^ 400" "\<bar>1 / 2 ^ 539 - 1 / 2 ^ 540\<bar> = \<mu>"
         "\<mu> / 8 * (\<mu> / 32) < tiny"
    by (simp_all add: \<mu>_def tiny_def)
  have "\<bar>h\<bar> \<le> \<mu> * (pi / 360) * (1 + 1 / 2 ^ 49) + 4 * tiny"
    unfolding h_def K_def using half_angle [of "1 / 2 ^ 539 - 1 / 2 ^ 540"]
    by (simp only: \<mu>(3))
  moreover have "\<mu> * (pi / 360) \<le> \<mu> * (4 / 360)"
    using \<mu>(1) pi_less_4 by (intro mult_left_mono) simp_all
  ultimately have h: "\<bar>h\<bar> \<le> \<mu> / 64"
    using \<mu>(1,2) by (simp; argo)
  have "\<bar>s\<bar> \<le> \<bar>sin h\<bar> * (1 + 1 / 2 ^ 53) + tiny"
    unfolding s_def by (rule double_abs_upper)
  then have s: "\<bar>s\<bar> \<le> \<mu> / 32"
    using h abs_sin_x_le_abs_x [of h] \<mu>(1,2) by (simp; argo)
  have "\<bar>c\<bar> \<le> \<bar>cos (double (45 * K))\<bar> * (1 + 1 / 2 ^ 53) + tiny"
    unfolding c_def by (rule double_abs_upper)
  then have c: "\<bar>c\<bar> \<le> 5 / 4"
    using abs_cos_le_one [of "double (45 * K)"] tiny_small by (simp; argo)
  have "\<bar>c\<bar> * \<bar>c\<bar> \<le> (5 / 4) * (5 / 4)"
    using c by (intro mult_mono) simp_all
  moreover have "\<bar>cc\<bar> \<le> \<bar>c * c\<bar> * (1 + 1 / 2 ^ 53) + tiny"
    unfolding cc_def by (rule double_abs_upper)
  ultimately have cc: "\<bar>cc\<bar> \<le> 2"
    using tiny_small by (simp add: abs_mult; argo)
  have "\<bar>cc\<bar> * \<bar>s\<bar> \<le> 2 * (\<mu> / 32)"
    using cc s by (intro mult_mono) simp_all
  moreover have "\<bar>ccs\<bar> \<le> \<bar>cc * s\<bar> * (1 + 1 / 2 ^ 53) + tiny"
    unfolding ccs_def by (rule double_abs_upper)
  ultimately have ccs: "\<bar>ccs\<bar> \<le> \<mu> / 8"
    using \<mu>(1,2) by (simp add: abs_mult; argo)
  have "\<bar>ccs\<bar> * \<bar>s\<bar> \<le> \<mu> / 8 * (\<mu> / 32)"
    using ccs s by (intro mult_mono) simp_all
  then have "\<bar>ccs * s\<bar> < tiny"
    using \<mu>(4) by (simp add: abs_mult)
  then have "double (ccs * s) = 0"
    by (rule double_underflow)
  then show ?thesis
    unfolding a by simp
qed


section \<open>The first leg falls back, the second succeeds\<close>

text \<open>
  Claim C7 says that the time substituted for the first leg is nonzero whenever the
  position of the driver differs from the rider's. In binary64 it is zero for a driver
  and a rider at latitude 45 on two meridians \<open>2\<^sup>-\<^sup>5\<^sup>4\<^sup>0\<close> degrees apart, with the library
  that returns the nearest number to the exact sine, cosine, square root and arc
  tangent: the total is then the time of the second leg alone.
\<close>

theorem leg_time_underflow:
  "(45, 1 / 2 ^ 540) \<noteq> (45, 1 / 2 ^ 539 :: real) \<and>
   accurate rounded_math \<and>
   timeToUser_double rounded_math 45 (1 / 2 ^ 540) 45 (1 / 2 ^ 539) = Num 0"
proof -
  have "timeToUser_double rounded_math 45 (1 / 2 ^ 540) 45 (1 / 2 ^ 539) = Num 0"
    unfolding timeToUser_double_eq haversine_a_double_underflow
    by (simp add: rounded_math_def atan2_def)
  then show ?thesis
    using accurate_rounded_math by simp
qed

text \<open>
  Claim C7, amended: when the first leg returns no features and the second reports 600
  seconds, the total is \<open>((distance(driver, rider) / 40) * 3600 + 600) / 60\<close> minutes.
  In binary64, with an accurate library, for latitudes within 89.999 degrees of the
  equator and longitudes of magnitude at most \<open>2\<^sup>1\<^sup>0\<^sup>2\<^sup>2\<close>, the time substituted for the
  first leg is not zero when the latitudes differ by at least \<open>2\<^sup>-\<^sup>5\<^sup>0\<^sup>0\<close> degrees, or the
  longitudes differ by at least \<open>2\<^sup>-\<^sup>5\<^sup>0\<^sup>0\<close> and at most 359.999 degrees: it is a positive
  number or \<^verbatim>\<open>NaN\<close>, and a positive number when driver and rider are at most 89 degrees
  apart in latitude and in longitude.
\<close>

theorem driverTask_partial_failure:
  assumes "fetch_json E i 0 (Routing (latitude marker) (longitude marker) ulat ulng key) = Inr dA"
    and "no_features dA"
    and "fetch_json E i 1 (Routing ulat ulng dlat dlng key) = Inr dB"
    and "\<not> no_features dB"
    and "first_time dB = Inr (Some 600)"
  shows "snd (driverTask E key i marker ulat ulng dlat dlng) =
           Inr (marker\<lparr>time := Some (Num (((calculateDistance (latitude marker) (longitude marker) ulat ulng
                                                 / 40) * 3600 + 600) / 60)),
                       price := Some (toFixed (numberToString E) 2
                                        (Num (((calculateDistance (latitude marker) (longitude marker)
                                                  ulat ulng / 40) * 3600 + 600) / 60 * 0.5)))\<rparr>) \<and>
         (accurate M \<and> \<bar>latitude marker\<bar> \<le> 89.999 \<and> \<bar>ulat\<bar> \<le> 89.999 \<and>
          \<bar>longitude marker\<bar> \<le> 2 ^ 1022 \<and> \<bar>ulng\<bar> \<le> 2 ^ 1022 \<and>
          (1 / 2 ^ 500 \<le> \<bar>ulat - latitude marker\<bar> \<or>
           1 / 2 ^ 500 \<le> \<bar>ulng - longitude marker\<bar> \<and> \<bar>ulng - longitude marker\<bar> \<le> 359.999) \<longrightarrow>
          (timeToUser_double M (latitude marker) (longitude marker) ulat ulng = NaN \<or>
           (\<exists>t. timeToUser_double M (latitude marker) (longitude marker) ulat ulng = Num t \<and> 0 < t)) \<and>
          (\<bar>ulat - latitude marker\<bar> \<le> 89 \<and> \<bar>ulng - longitude marker\<bar> \<le> 89 \<longrightarrow>
           (\<exists>t. timeToUser_double M (latitude marker) (longitude marker) ulat ulng = Num t \<and> 0 < t)))"
proof (intro conjI impI)
  have "or_else (first_time_opt dB) x = 600" for x
    using assms(5) by (simp add: first_time_opt_eq or_else_def)
  then show "snd (driverTask E key i marker ulat ulng dlat dlng) =
           Inr (marker\<lparr>time := Some (Num (((calculateDistance (latitude marker) (longitude marker) ulat ulng
                                                 / 40) * 3600 + 600) / 60)),
                       price := Some (toFixed (numberToString E) 2
                                        (Num (((calculateDistance (latitude marker) (longitude marker)
                                                  ulat ulng / 40) * 3600 + 600) / 60 * 0.5)))\<rparr>)"
    using try_fallback [OF assms(1-3)]
    by (simp add: driverTask_cases annotated_Num)
next
  assume range: "accurate M \<and> \<bar>latitude marker\<bar> \<le> 89.999 \<and> \<bar>ulat\<bar> \<le> 89.999 \<and>
          \<bar>longitude marker\<bar> \<le> 2 ^ 1022 \<and> \<bar>ulng\<bar> \<le> 2 ^ 1022 \<and>
          (1 / 2 ^ 500 \<le> \<bar>ulat - latitude marker\<bar> \<or>
           1 / 2 ^ 500 \<le> \<bar>ulng - longitude marker\<bar> \<and> \<bar>ulng - longitude marker\<bar> \<le> 359.999)"
  define a where "a = haversine_a_double M (latitude marker) (longitude marker) ulat ulng"
  have acc: "accurate M"
    using range by simp
  have a: "1 / 2 ^ 1068 \<le> a"
    unfolding a_def using range by (intro haversine_a_double_lower) simp_all
  have "(0::real) \<le> 1 / 2 ^ 1068"
    by simp
  then have "0 \<le> a"
    using a by (rule order_trans)
  then have a0: "\<not> a < 0"
    by simp
  have pos: "0 < double (double (double (6371 * double (2 * Math_atan2 M
                  (Math_sqrt M a) (Math_sqrt M (double (1 - a))))) / 40) * 3600)"
    if "0 \<le> double (1 - a)"
    using acc a that by (rule leg_time_positive)
  show "timeToUser_double M (latitude marker) (longitude marker) ulat ulng = NaN \<or>
        (\<exists>t. timeToUser_double M (latitude marker) (longitude marker) ulat ulng = Num t \<and> 0 < t)"
    using pos a0 by (simp add: timeToUser_double_eq a_def [symmetric] not_less)
  assume near: "\<bar>ulat - latitude marker\<bar> \<le> 89 \<and> \<bar>ulng - longitude marker\<bar> \<le> 89"
  have "a \<le> 999 / 1000"
    unfolding a_def using acc near by (intro haversine_a_double_upper) simp_all
  then have "0 \<le> 1 - a"
    by simp
  then have "0 \<le> double (1 - a)"
    by (rule double_nonneg)
  then show "\<exists>t. timeToUser_double M (latitude marker) (longitude marker) ulat ulng = Num t \<and> 0 < t"
    using pos a0 by (simp add: timeToUser_double_eq a_def [symmetric] not_less)
qed

theorem driverTask_partial_failure_witness:
  "snd (driverTask (sample_env partial_net) ''key'' 0 sample_marker
          37.7749 (-122.4194) 37.3382 (-121.8863)) =
     Inr (sample_marker
            \<lparr>time := Some (Num (((calculateDistance 37.78 (-122.42) 37.7749 (-122.4194) / 40) * 3600
                                   + 600) / 60)),
             price := Some (toFixed (\<lambda>x. ''1e+21'') 2
                              (Num (((calculateDistance 37.78 (-122.42) 37.7749 (-122.4194) / 40)
                                       * 3600 + 600) / 60 * 0.5)))\<rparr>) \<and>
   (\<exists>t. timeToUser_double rounded_math 37.78 (-122.42) 37.7749 (-122.4194) = Num t \<and> 0 < t)"
  using driverTask_partial_failure [of "sample_env partial_net" 0 sample_marker
      "37.7749" "-122.4194" "''key''" "Routing_data (Some [])" "37.3382" "-121.8863"
      "Routing_data (Some [Feature (Some (Properties (Some 600)))])" rounded_math]
    accurate_rounded_math
  by (simp add: sample_env_def partial_net_def empty_result_def routed_def no_features_def
      first_time_def sample_marker_def)

text \<open>
  Claim C9: a coordinate of exactly 0 is treated as absent. With a rider coordinate 0,
  \<open>calculateRegion\<close> returns the default region; with the rider present and a
  destination coordinate 0, it returns the region around the rider; with any of the
  four coordinates 0, \<open>calculateDriverTimes\<close> returns no result and issues no request.
\<close>

theorem zero_coordinate_is_absent:
  "(ulat = Some 0 \<or> ulng = Some 0 \<longrightarrow>
      calculateRegion ulat ulng dlat dlng =
        \<lparr>region.latitude = 37.78825, region.longitude = -122.4324,
         latitudeDelta = 0.01, longitudeDelta = 0.01\<rparr>) \<and>
   (truthy ulat \<and> truthy ulng \<and> (dlat = Some 0 \<or> dlng = Some 0) \<longrightarrow>
      calculateRegion ulat ulng dlat dlng =
        \<lparr>region.latitude = num ulat, region.longitude = num ulng,
         latitudeDelta = 0.01, longitudeDelta = 0.01\<rparr>) \<and>
   (ulat = Some 0 \<or> ulng = Some 0 \<or> dlat = Some 0 \<or> dlng = Some 0 \<longrightarrow>
      calculateDriverTimes E markers ulat ulng dlat dlng = ([], None))"
  by (auto simp: calculateRegion_def calculateDriverTimes_def)

theorem zero_coordinate_is_absent_witness:
  "calculateRegion (Some 0) (Some 36.8219) (Some 37.3382) (Some (-121.8863)) =
     \<lparr>region.latitude = 37.78825, region.longitude = -122.4324,
      latitudeDelta = 0.01, longitudeDelta = 0.01\<rparr> \<and>
   calculateRegion (Some 51.4779) (Some (-0.0015)) (Some 51.5) (Some 0) =
     \<lparr>region.latitude = 51.4779, region.longitude = -0.0015,
      latitudeDelta = 0.01, longitudeDelta = 0.01\<rparr> \<and>
   calculateDriverTimes (sample_env scenario_net) [sample_marker, second_marker]
     (Some 0) (Some 36.8219) (Some 37.3382) (Some (-121.8863)) = ([], None)"
  using zero_coordinate_is_absent [of "Some 0" "Some 36.8219" "Some 37.3382" "Some (-121.8863)"
      "sample_env scenario_net" "[sample_marker, second_marker]"]
    zero_coordinate_is_absent [of "Some 51.4779" "Some (-0.0015)" "Some 51.5" "Some 0"
      "sample_env scenario_net" "[sample_marker, second_marker]"]
  by simp

text \<open>
  Claim C10: the same response for the second leg, with features and the time 0, counts
  as 0 seconds when the first leg was routed, and is replaced by the estimate
  \<open>(distance(rider, destination) / 40) * 3600\<close> seconds when the first leg had no features.
\<close>

theorem legB_zero_time:
  assumes "fetch_json E i 1 (Routing ulat ulng dlat dlng key) = Inr dB"
    and "fetch_json E' i 1 (Routing ulat ulng dlat dlng key) = Inr dB"
    and "\<not> no_features dB"
    and "first_time dB = Inr (Some 0)"
    and "fetch_json E i 0 (Routing (latitude marker) (longitude marker) ulat ulng key) = Inr dA"
    and "\<not> no_features dA"
    and "first_time dA = Inr (Some tA)"
    and "fetch_json E' i 0 (Routing (latitude marker) (longitude marker) ulat ulng key) = Inr dA'"
    and "no_features dA'"
  shows "snd (driverTask E key i marker ulat ulng dlat dlng) =
           Inr (marker\<lparr>time := Some (Num ((tA + 0) / 60)),
                       price := Some (toFixed (numberToString E) 2 (Num ((tA + 0) / 60 * 0.5)))\<rparr>) \<and>
         snd (driverTask E' key i marker ulat ulng dlat dlng) =
           Inr (marker\<lparr>time := Some (Num (((calculateDistance (latitude marker) (longitude marker) ulat ulng
                                                 / 40) * 3600 +
                                              (calculateDistance ulat ulng dlat dlng / 40) * 3600) / 60)),
                       price := Some (toFixed (numberToString E') 2
                                        (Num (((calculateDistance (latitude marker) (longitude marker)
                                                  ulat ulng / 40) * 3600 +
                                               (calculateDistance ulat ulng dlat dlng / 40) * 3600) / 60 * 0.5)))\<rparr>)"
proof
  show "snd (driverTask E key i marker ulat ulng dlat dlng) =
           Inr (marker\<lparr>time := Some (Num ((tA + 0) / 60)),
                       price := Some (toFixed (numberToString E) 2 (Num ((tA + 0) / 60 * 0.5)))\<rparr>)"
    using try_routed [OF assms(5) assms(6) assms(7) assms(1) assms(3) assms(4)]
    by (simp add: driverTask_cases annotated_Num to_number_def)
  have "or_else (first_time_opt dB) x = x" for x
    using assms(4) by (simp add: first_time_opt_eq or_else_def)
  then show "snd (driverTask E' key i marker ulat ulng dlat dlng) =
           Inr (marker\<lparr>time := Some (Num (((calculateDistance (latitude marker) (longitude marker) ulat ulng
                                                 / 40) * 3600 +
                                              (calculateDistance ulat ulng dlat dlng / 40) * 3600) / 60)),
                       price := Some (toFixed (numberToString E') 2
                                        (Num (((calculateDistance (latitude marker) (longitude marker)
                                                  ulat ulng / 40) * 3600 +
                                               (calculateDistance ulat ulng dlat dlng / 40) * 3600) / 60 * 0.5)))\<rparr>)"
    using try_fallback [OF assms(8) assms(9) assms(2)]
    by (simp add: driverTask_cases annotated_Num)
qed

theorem legB_zero_time_witness:
  "time (projr (snd (driverTask (sample_env zero_net) ''key'' 0 sample_marker
                        37.7749 (-122.4194) 37.3382 (-121.8863)))) = Some (Num 5) \<and>
   time (projr (snd (driverTask (sample_env zero_fallback_net) ''key'' 0 sample_marker
                        37.7749 (-122.4194) 37.3382 (-121.8863)))) =
     Some (Num (((calculateDistance 37.78 (-122.42) 37.7749 (-122.4194) / 40) * 3600 +
                 (calculateDistance 37.7749 (-122.4194) 37.3382 (-121.8863) / 40) * 3600) / 60))"
  using legB_zero_time [of "sample_env zero_net" 0 "37.7749" "-122.4194" "37.3382" "-121.8863"
      "''key''" "Routing_data (Some [Feature (Some (Properties (Some 0)))])"
      "sample_env zero_fallback_net" sample_marker
      "Routing_data (Some [Feature (Some (Properties (Some 300)))])" 300
      "Routing_data (Some [])"]
  by (simp add: sample_env_def zero_net_def zero_fallback_net_def routed_def empty_result_def
      no_features_def first_time_def sample_marker_def)

end
